theory Spec2Isabelle
  imports Main "HOL-Library.Log_Nat"
begin

section \<open>ONVIF event parsers (homeassistant/components/onvif/parsers.py)\<close>

subsection \<open>Exceptions and results\<close>

text \<open>
  The Python exceptions that the parser bodies can raise. A computation that may raise is
  a value of \<open>exn + 'a\<close>: \<open>Inl\<close> is the exception that propagates, \<open>Inr\<close> the value.
\<close>

datatype exn = AttributeError | KeyError | IndexError | ValueError | OverflowError

definition bind_exn :: "exn + 'a \<Rightarrow> ('a \<Rightarrow> exn + 'b) \<Rightarrow> exn + 'b" where
  "bind_exn m f = (case m of Inl e \<Rightarrow> Inl e | Inr x \<Rightarrow> f x)"

text \<open>Reading an attribute that the object may lack: \<open>obj.attr\<close>.\<close>

definition getattr :: "'a option \<Rightarrow> exn + 'a" where
  "getattr a = (case a of None \<Rightarrow> Inl AttributeError | Some v \<Rightarrow> Inr v)"

text \<open>Reading a list at index 0: \<open>xs[0]\<close>.\<close>

definition index0 :: "'a list \<Rightarrow> exn + 'a" where
  "index0 xs = (case xs of [] \<Rightarrow> Inl IndexError | x # _ \<Rightarrow> Inr x)"

subsection \<open>The notification message\<close>

text \<open>
  The parsers receive an untyped object \<open>msg\<close> and read it along the paths
  \<open>msg.Message._value_1.Source.SimpleItem\<close> and \<open>msg.Message._value_1.Data.SimpleItem\<close>,
  whose elements have the attributes \<open>Name\<close> and \<open>Value\<close>. Every attribute on these paths
  may be absent: \<open>None\<close> here, an AttributeError when the parser reads it (an object on
  the path that is Python's \<open>None\<close> gives the same AttributeError at the next attribute).
  \<open>SimpleItem\<close>, when present, is a list, and \<open>Name\<close> and \<open>Value\<close>, when present, are
  strings. The payload object \<open>_value_1\<close> is also formatted into the uid by an f-string;
  \<open>as_str\<close> is the text that Python's \<open>str()\<close> gives for it. The parsers are coroutines
  that never suspend: awaiting one gives the result of its body, which is what the
  functions below return.
\<close>

record simple_item =
  Name :: "string option"
  Value :: "string option"

record item_list =
  SimpleItem :: "simple_item list option"

record payload =
  as_str :: string
  Source :: "item_list option"
  Data :: "item_list option"

record message_element =
  value_1 :: "payload option"

record notification =
  Message :: "message_element option"

text \<open>\<open>msg.Message._value_1\<close>\<close>

definition get_value_1 :: "notification \<Rightarrow> exn + payload" where
  "get_value_1 msg = bind_exn (getattr (Message msg)) (\<lambda>m. getattr (value_1 m))"

text \<open>\<open>holder.SimpleItem\<close>, for \<open>holder\<close> one of \<open>value_1.Source\<close> and \<open>value_1.Data\<close>\<close>

definition get_items :: "item_list option \<Rightarrow> exn + simple_item list" where
  "get_items holder = bind_exn (getattr holder) (\<lambda>h. getattr (SimpleItem h))"

text \<open>\<open>holder.SimpleItem[0].Value\<close>\<close>

definition first_value :: "item_list option \<Rightarrow> exn + string" where
  "first_value holder =
     bind_exn (get_items holder) (\<lambda>xs. bind_exn (index0 xs) (\<lambda>x. getattr (Value x)))"

subsection \<open>The Event\<close>

text \<open>
  Modelled from the spec: the enumeration \<open>EntityCategory\<close> of \<open>homeassistant.const\<close>,
  which is not among the source files. The parsers use its member \<open>DIAGNOSTIC\<close> only, the
  "optional diagnostic marker" of section 3 of the spec.
\<close>

datatype EntityCategory = DIAGNOSTIC

record datetime =
  year :: int
  month :: int
  day :: int
  hour :: int
  minute :: int
  second :: int
  microsecond :: int
  utcoffset :: "int option"

datatype event_value =
    NoneValue
  | BoolValue bool
  | IntValue int
  | StrValue string
  | DatetimeValue datetime

text \<open>
  Modelled from the spec: the class \<open>Event\<close> of \<open>models.py\<close>, which is imported by the
  parsers and is not among the source files. Section 3 of the spec gives its fields in
  the order the parsers pass them (uid, name, platform, device class, unit, value, entity
  category, entity enabled) and the default of \<open>entity_enabled\<close>, true.
  The last two arguments are optional in the calls: an omitted entity category is
  absent, an omitted \<open>entity_enabled\<close> takes the default.
\<close>

record Event =
  uid :: string
  name :: string
  platform :: string
  device_class :: "string option"
  unit_of_measurement :: "string option"
  "value" :: event_value
  entity_category :: "EntityCategory option"
  entity_enabled :: bool

definition new_Event ::
  "string \<Rightarrow> string \<Rightarrow> string \<Rightarrow> string option \<Rightarrow> string option \<Rightarrow> event_value
     \<Rightarrow> EntityCategory option \<Rightarrow> bool option \<Rightarrow> Event" where
  "new_Event u n p dc unit v cat enabled =
     \<lparr>uid = u, name = n, platform = p, device_class = dc, unit_of_measurement = unit,
      value = v, entity_category = cat,
      entity_enabled = (case enabled of None \<Rightarrow> True | Some b \<Rightarrow> b)\<rparr>"

text \<open>
  Every parser body is wrapped in \<open>try: ... except (AttributeError, KeyError): return None\<close>:
  these two exceptions become the result \<open>None\<close>, every other exception propagates.
\<close>

definition try_except :: "exn + Event \<Rightarrow> exn + Event option" where
  "try_except body =
     (case body of
        Inr ev \<Rightarrow> Inr (Some ev)
      | Inl AttributeError \<Rightarrow> Inr None
      | Inl KeyError \<Rightarrow> Inr None
      | Inl e \<Rightarrow> Inl e)"

subsection \<open>Video source normalization\<close>

definition VIDEO_SOURCE_MAPPING :: "string \<rightharpoonup> string" where
  "VIDEO_SOURCE_MAPPING = [''vsconf'' \<mapsto> ''VideoSourceToken'']"

text \<open>\<open>_normalize_video_source\<close>: \<open>VIDEO_SOURCE_MAPPING.get(source, source)\<close>\<close>

definition normalize_video_source :: "string \<Rightarrow> string" where
  "normalize_video_source source =
     (case VIDEO_SOURCE_MAPPING source of None \<Rightarrow> source | Some v \<Rightarrow> v)"

subsection \<open>Parsers that read the first source item\<close>

text \<open>
  The shape shared by the parsers that read \<open>Source.SimpleItem[0].Value\<close> and compare
  \<open>Data.SimpleItem[0].Value\<close> with a literal set: in the order of the source, the payload,
  the source value, the uid and then the data value. Each parser below gives its own name,
  device class, literal set and entity category.
\<close>

definition source0_parser ::
  "string \<Rightarrow> string option \<Rightarrow> (string \<Rightarrow> bool) \<Rightarrow> EntityCategory option
     \<Rightarrow> string \<Rightarrow> notification \<Rightarrow> exn + Event option" where
  "source0_parser nm dc truthy cat = (\<lambda>uid msg.
     try_except
       (bind_exn (get_value_1 msg) (\<lambda>v1.
        bind_exn (first_value (Source v1)) (\<lambda>source.
        bind_exn (first_value (Data v1)) (\<lambda>d.
          Inr (new_Event (uid @ ''_'' @ as_str v1 @ ''_'' @ source) nm ''binary_sensor'' dc None
                 (BoolValue (truthy d)) cat None))))))"

definition async_parse_motion_alarm :: "string \<Rightarrow> notification \<Rightarrow> exn + Event option" where
  "async_parse_motion_alarm =
     source0_parser ''Motion Alarm'' (Some ''motion'') (\<lambda>v. v = ''true'') None"

definition async_parse_image_too_blurry :: "string \<Rightarrow> notification \<Rightarrow> exn + Event option" where
  "async_parse_image_too_blurry =
     source0_parser ''Image Too Blurry'' (Some ''problem'') (\<lambda>v. v = ''true'') (Some DIAGNOSTIC)"

definition async_parse_image_too_dark :: "string \<Rightarrow> notification \<Rightarrow> exn + Event option" where
  "async_parse_image_too_dark =
     source0_parser ''Image Too Dark'' (Some ''problem'') (\<lambda>v. v = ''true'') (Some DIAGNOSTIC)"

definition async_parse_image_too_bright :: "string \<Rightarrow> notification \<Rightarrow> exn + Event option" where
  "async_parse_image_too_bright =
     source0_parser ''Image Too Bright'' (Some ''problem'') (\<lambda>v. v = ''true'') (Some DIAGNOSTIC)"

definition async_parse_scene_change :: "string \<Rightarrow> notification \<Rightarrow> exn + Event option" where
  "async_parse_scene_change =
     source0_parser ''Global Scene Change'' (Some ''problem'') (\<lambda>v. v = ''true'') None"

definition async_parse_digital_input :: "string \<Rightarrow> notification \<Rightarrow> exn + Event option" where
  "async_parse_digital_input =
     source0_parser ''Digital Input'' None (\<lambda>v. v = ''true'') None"

definition async_parse_relay :: "string \<Rightarrow> notification \<Rightarrow> exn + Event option" where
  "async_parse_relay =
     source0_parser ''Relay Triggered'' None (\<lambda>v. v = ''active'') None"

definition async_parse_storage_failure :: "string \<Rightarrow> notification \<Rightarrow> exn + Event option" where
  "async_parse_storage_failure =
     source0_parser ''Storage Failure'' (Some ''problem'') (\<lambda>v. v = ''true'') (Some DIAGNOSTIC)"

definition async_parse_jobstate :: "string \<Rightarrow> notification \<Rightarrow> exn + Event option" where
  "async_parse_jobstate =
     source0_parser ''Recording Job State'' None (\<lambda>v. v = ''Active'') (Some DIAGNOSTIC)"

subsection \<open>Parsers that search the source items by name\<close>

text \<open>
  \<open>for source in value_1.Source.SimpleItem: ...\<close>: the loop body is a step on the loop's
  variables that may raise; the loop stops at the first exception.
\<close>

fun for_each :: "('s \<Rightarrow> 'a \<Rightarrow> exn + 's) \<Rightarrow> 'a list \<Rightarrow> 's \<Rightarrow> exn + 's" where
  "for_each step [] s = Inr s"
| "for_each step (x # xs) s = bind_exn (step s x) (\<lambda>s'. for_each step xs s')"

text \<open>
  The loop body of the parsers that keep three tokens: three \<open>if\<close> statements in
  sequence, each reading \<open>source.Name\<close> and, when it is the name looked for,
  \<open>source.Value\<close>. The first token is passed through \<open>norm_fn\<close>, which is
  \<open>_normalize_video_source\<close> or nothing, as the parser has it.
\<close>

definition token3_step ::
  "string \<Rightarrow> (string \<Rightarrow> string) \<Rightarrow> string \<Rightarrow> string \<Rightarrow> string \<times> string \<times> string
     \<Rightarrow> simple_item \<Rightarrow> exn + string \<times> string \<times> string" where
  "token3_step k1 norm_fn k2 k3 = (\<lambda>(video_source, video_analytics, rule) source.
     bind_exn (getattr (Name source)) (\<lambda>n1.
     bind_exn (if n1 = k1 then bind_exn (getattr (Value source)) (\<lambda>v. Inr (norm_fn v))
               else Inr video_source) (\<lambda>video_source'.
     bind_exn (getattr (Name source)) (\<lambda>n2.
     bind_exn (if n2 = k2 then getattr (Value source) else Inr video_analytics) (\<lambda>video_analytics'.
     bind_exn (getattr (Name source)) (\<lambda>n3.
     bind_exn (if n3 = k3 then getattr (Value source) else Inr rule) (\<lambda>rule'.
       Inr (video_source', video_analytics', rule'))))))))"

text \<open>
  The shape shared by the parsers that keep three tokens: the tokens start empty, the loop
  runs over the source items, then the uid is built and the first data value is read.
\<close>

definition token3_parser ::
  "string \<Rightarrow> (string \<Rightarrow> string) \<Rightarrow> string \<Rightarrow> string \<Rightarrow> string \<Rightarrow> string \<Rightarrow> string option
     \<Rightarrow> (string \<Rightarrow> event_value) \<Rightarrow> EntityCategory option
     \<Rightarrow> string \<Rightarrow> notification \<Rightarrow> exn + Event option" where
  "token3_parser k1 norm_fn k2 k3 nm pf dc conv cat = (\<lambda>uid msg.
     try_except
       (bind_exn (get_value_1 msg) (\<lambda>v1.
        bind_exn (get_items (Source v1)) (\<lambda>items.
        bind_exn (for_each (token3_step k1 norm_fn k2 k3) items ([], [], []))
          (\<lambda>(video_source, video_analytics, rule).
        bind_exn (first_value (Data v1)) (\<lambda>d.
          Inr (new_Event
                 (uid @ ''_'' @ as_str v1 @ ''_'' @ video_source @ ''_'' @ video_analytics
                    @ ''_'' @ rule)
                 nm pf dc None (conv d) cat None)))))))"

definition async_parse_detected_sound :: "string \<Rightarrow> notification \<Rightarrow> exn + Event option" where
  "async_parse_detected_sound =
     token3_parser ''AudioSourceConfigurationToken'' (\<lambda>v. v)
       ''AudioAnalyticsConfigurationToken'' ''Rule''
       ''Detected Sound'' ''binary_sensor'' (Some ''sound'')
       (\<lambda>v. BoolValue (v = ''true'')) None"

definition async_parse_field_detector :: "string \<Rightarrow> notification \<Rightarrow> exn + Event option" where
  "async_parse_field_detector =
     token3_parser ''VideoSourceConfigurationToken'' normalize_video_source
       ''VideoAnalyticsConfigurationToken'' ''Rule''
       ''Field Detection'' ''binary_sensor'' (Some ''motion'')
       (\<lambda>v. BoolValue (v = ''true'')) None"

definition async_parse_cell_motion_detector ::
  "string \<Rightarrow> notification \<Rightarrow> exn + Event option" where
  "async_parse_cell_motion_detector =
     token3_parser ''VideoSourceConfigurationToken'' normalize_video_source
       ''VideoAnalyticsConfigurationToken'' ''Rule''
       ''Cell Motion Detection'' ''binary_sensor'' (Some ''motion'')
       (\<lambda>v. BoolValue (v = ''true'')) None"

definition async_parse_motion_region_detector ::
  "string \<Rightarrow> notification \<Rightarrow> exn + Event option" where
  "async_parse_motion_region_detector =
     token3_parser ''VideoSourceConfigurationToken'' normalize_video_source
       ''VideoAnalyticsConfigurationToken'' ''Rule''
       ''Motion Region Detection'' ''binary_sensor'' (Some ''motion'')
       (\<lambda>v. BoolValue (v \<in> set [''1'', ''true''])) None"

definition async_parse_tamper_detector :: "string \<Rightarrow> notification \<Rightarrow> exn + Event option" where
  "async_parse_tamper_detector =
     token3_parser ''VideoSourceConfigurationToken'' normalize_video_source
       ''VideoAnalyticsConfigurationToken'' ''Rule''
       ''Tamper Detection'' ''binary_sensor'' (Some ''problem'')
       (\<lambda>v. BoolValue (v = ''true'')) (Some DIAGNOSTIC)"

definition async_parse_linedetector_crossed ::
  "string \<Rightarrow> notification \<Rightarrow> exn + Event option" where
  "async_parse_linedetector_crossed =
     token3_parser ''VideoSourceConfigurationToken'' (\<lambda>v. v)
       ''VideoAnalyticsConfigurationToken'' ''Rule''
       ''Line Detector Crossed'' ''sensor'' None StrValue (Some DIAGNOSTIC)"

definition async_parse_count_aggregation_counter ::
  "string \<Rightarrow> notification \<Rightarrow> exn + Event option" where
  "async_parse_count_aggregation_counter =
     token3_parser ''VideoSourceConfigurationToken'' normalize_video_source
       ''VideoAnalyticsConfigurationToken'' ''Rule''
       ''Count Aggregation Counter'' ''sensor'' None StrValue (Some DIAGNOSTIC)"

text \<open>
  The parsers of the \<open>MyRuleDetector\<close> topics keep one token, the value of the source item
  named \<open>Source\<close>, normalized.
\<close>

definition token1_step :: "string \<Rightarrow> simple_item \<Rightarrow> exn + string" where
  "token1_step = (\<lambda>video_source source.
     bind_exn (getattr (Name source)) (\<lambda>n.
       if n = ''Source''
       then bind_exn (getattr (Value source)) (\<lambda>v. Inr (normalize_video_source v))
       else Inr video_source))"

definition token1_parser ::
  "string \<Rightarrow> string option \<Rightarrow> string \<Rightarrow> notification \<Rightarrow> exn + Event option" where
  "token1_parser nm dc = (\<lambda>uid msg.
     try_except
       (bind_exn (get_value_1 msg) (\<lambda>v1.
        bind_exn (get_items (Source v1)) (\<lambda>items.
        bind_exn (for_each token1_step items []) (\<lambda>video_source.
        bind_exn (first_value (Data v1)) (\<lambda>d.
          Inr (new_Event (uid @ ''_'' @ as_str v1 @ ''_'' @ video_source)
                 nm ''binary_sensor'' dc None (BoolValue (d = ''true'')) None None)))))))"

definition async_parse_dog_cat_detector :: "string \<Rightarrow> notification \<Rightarrow> exn + Event option" where
  "async_parse_dog_cat_detector = token1_parser ''Pet Detection'' (Some ''motion'')"

definition async_parse_vehicle_detector :: "string \<Rightarrow> notification \<Rightarrow> exn + Event option" where
  "async_parse_vehicle_detector = token1_parser ''Vehicle Detection'' (Some ''motion'')"

definition async_parse_person_detector :: "string \<Rightarrow> notification \<Rightarrow> exn + Event option" where
  "async_parse_person_detector = token1_parser ''Person Detection'' (Some ''motion'')"

definition async_parse_face_detector :: "string \<Rightarrow> notification \<Rightarrow> exn + Event option" where
  "async_parse_face_detector = token1_parser ''Face Detection'' (Some ''motion'')"

definition async_parse_visitor_detector :: "string \<Rightarrow> notification \<Rightarrow> exn + Event option" where
  "async_parse_visitor_detector = token1_parser ''Visitor Detection'' (Some ''occupancy'')"

subsection \<open>Python floats\<close>

text \<open>
  A Python float is an IEEE 754 double: a finite value \<open>m * 2 ^ e\<close> (\<open>Finite m e\<close>), an
  infinity with its sign (\<open>Infinite True\<close> is the negative one) or a NaN. Strings are
  over the code points below 256.
\<close>

datatype pyfloat = Finite int int | Infinite bool | NaN

text \<open>The integer nearest to \<open>n / d\<close>, ties to the even one, for \<open>0 \<le> n\<close> and \<open>0 < d\<close>.\<close>

definition round_half_even :: "int \<Rightarrow> int \<Rightarrow> int" where
  "round_half_even n d =
     (let m = n div d; r = n mod d
      in if 2 * r < d then m
         else if d < 2 * r then m + 1
         else if even m then m else m + 1)"

text \<open>\<open>\<lfloor>log\<^sub>2 (p / q)\<rfloor>\<close> for \<open>0 < p\<close> and \<open>0 < q\<close>.\<close>

definition floor_log2 :: "int \<Rightarrow> int \<Rightarrow> int" where
  "floor_log2 p q =
     (let d = bitlen p - bitlen q
      in if (if 0 \<le> d then q * 2 ^ nat d \<le> p else q \<le> p * 2 ^ nat (- d)) then d else d - 1)"

text \<open>
  The double nearest to \<open>p / q\<close> (\<open>0 \<le> p\<close>, \<open>0 < q\<close>) with the sign \<open>neg\<close>, rounding to
  nearest, ties to even: 53 bits of precision, exponents from \<open>-1074\<close> (subnormal numbers
  included), and an infinity from \<open>2 ^ 1024\<close> on.
\<close>

definition to_double :: "bool \<Rightarrow> int \<Rightarrow> int \<Rightarrow> pyfloat" where
  "to_double neg p q =
     (if p = 0 then Finite 0 0
      else
        let l = floor_log2 p q;
            e = max (l - 52) (- 1074);
            m = (if 0 \<le> e then round_half_even p (q * 2 ^ nat e)
                 else round_half_even (p * 2 ^ nat (- e)) q)
        in if 1024 \<le> l \<or> (e = 971 \<and> m = 2 ^ 53) then Infinite neg
           else Finite (if neg then - m else m) e)"




text \<open>\<open>x <= k\<close> for a float \<open>x\<close> and an integer \<open>k\<close>: the comparison is exact.\<close>

definition float_le_int :: "pyfloat \<Rightarrow> int \<Rightarrow> bool" where
  "float_le_int x k =
     (case x of
        Finite m e \<Rightarrow> (if 0 \<le> e then m * 2 ^ nat e \<le> k else m \<le> k * 2 ^ nat (- e))
      | Infinite neg \<Rightarrow> neg
      | NaN \<Rightarrow> False)"

text \<open>\<open>x * 100\<close>: the exact product, rounded to a double.\<close>

definition float_times_100 :: "pyfloat \<Rightarrow> pyfloat" where
  "float_times_100 x =
     (case x of
        Finite m e \<Rightarrow>
          (if 0 \<le> e then to_double (m < 0) (\<bar>m\<bar> * 100 * 2 ^ nat e) 1
           else to_double (m < 0) (\<bar>m\<bar> * 100) (2 ^ nat (- e)))
      | Infinite neg \<Rightarrow> Infinite neg
      | NaN \<Rightarrow> NaN)"

text \<open>\<open>int(x)\<close>: truncation towards zero; an infinity and a NaN raise.\<close>

definition int_of_float :: "pyfloat \<Rightarrow> exn + int" where
  "int_of_float x =
     (case x of
        Finite m e \<Rightarrow>
          Inr (if 0 \<le> e then m * 2 ^ nat e
               else if 0 \<le> m then m div 2 ^ nat (- e)
               else - ((- m) div 2 ^ nat (- e)))
      | Infinite neg \<Rightarrow> Inl OverflowError
      | NaN \<Rightarrow> Inl ValueError)"

text \<open>
  \<open>float(s)\<close> for a string \<open>s\<close>: white space is stripped at both ends, an underscore may
  stand between two digits, and what is left is an optional sign followed by \<open>inf\<close>,
  \<open>infinity\<close> or \<open>nan\<close> in any case, or by a decimal number with an optional exponent.
  Anything else raises ValueError.
\<close>

definition is_space :: "char \<Rightarrow> bool" where
  "is_space c = (of_char c \<in> set [9, 10, 11, 12, 13, 32, 133, 160 :: nat])"

definition is_digit :: "char \<Rightarrow> bool" where
  "is_digit c = (48 \<le> (of_char c :: nat) \<and> (of_char c :: nat) \<le> 57)"

definition strip :: "string \<Rightarrow> string" where
  "strip s = rev (dropWhile is_space (rev (dropWhile is_space s)))"

fun remove_underscores :: "char \<Rightarrow> string \<Rightarrow> string option" where
  "remove_underscores prev [] = (if prev = CHR ''_'' then None else Some [])"
| "remove_underscores prev (c # cs) =
     (if c = CHR ''_''
      then (if is_digit prev then remove_underscores c cs else None)
      else if prev = CHR ''_'' \<and> \<not> is_digit c then None
      else map_option (\<lambda>r. c # r) (remove_underscores c cs))"

definition lower :: "char \<Rightarrow> char" where
  "lower c = (if 65 \<le> (of_char c :: nat) \<and> (of_char c :: nat) \<le> 90
              then char_of (of_char c + 32 :: nat) else c)"

fun digits_value :: "int \<Rightarrow> string \<Rightarrow> int" where
  "digits_value acc [] = acc"
| "digits_value acc (c # cs) = digits_value (acc * 10 + (int (of_char c) - 48)) cs"

text \<open>The exponent part: nothing, or \<open>e\<close> or \<open>E\<close>, an optional sign and at least one digit.\<close>

definition parse_exponent :: "string \<Rightarrow> int option" where
  "parse_exponent s =
     (case s of
        [] \<Rightarrow> Some 0
      | c # r \<Rightarrow>
          if c = CHR ''e'' \<or> c = CHR ''E'' then
            (let neg = (r \<noteq> [] \<and> hd r = CHR ''-'');
                 ds = (if r \<noteq> [] \<and> (hd r = CHR ''-'' \<or> hd r = CHR ''+'') then tl r else r)
             in if ds \<noteq> [] \<and> list_all is_digit ds
                then Some (if neg then - digits_value 0 ds else digits_value 0 ds)
                else None)
          else None)"

definition parse_number :: "bool \<Rightarrow> string \<Rightarrow> exn + pyfloat" where
  "parse_number neg s =
     (let ip = takeWhile is_digit s;
          r1 = dropWhile is_digit s;
          fp = (if r1 \<noteq> [] \<and> hd r1 = CHR ''.'' then takeWhile is_digit (tl r1) else []);
          r2 = (if r1 \<noteq> [] \<and> hd r1 = CHR ''.'' then dropWhile is_digit (tl r1) else r1)
      in if ip = [] \<and> fp = [] then Inl ValueError
         else case parse_exponent r2 of
                None \<Rightarrow> Inl ValueError
              | Some x \<Rightarrow>
                  (let p = digits_value 0 (ip @ fp);
                       k = x - int (length fp)
                   in Inr (if 0 \<le> k then to_double neg (p * 10 ^ nat k) 1
                           else to_double neg p (10 ^ nat (- k)))))"

definition float_of_str :: "string \<Rightarrow> exn + pyfloat" where
  "float_of_str s =
     (case remove_underscores (CHR 0x00) (strip s) of
        None \<Rightarrow> Inl ValueError
      | Some t \<Rightarrow>
          (let neg = (t \<noteq> [] \<and> hd t = CHR ''-'');
               body = (if t \<noteq> [] \<and> (hd t = CHR ''-'' \<or> hd t = CHR ''+'') then tl t else t);
               word = map lower body
           in if word = ''inf'' \<or> word = ''infinity'' then Inr (Infinite neg)
              else if word = ''nan'' then Inr NaN
              else parse_number neg body))"

subsection \<open>The processor usage parser\<close>

definition async_parse_processor_usage :: "string \<Rightarrow> notification \<Rightarrow> exn + Event option" where
  "async_parse_processor_usage = (\<lambda>uid msg.
     try_except
       (bind_exn (get_value_1 msg) (\<lambda>v1.
        bind_exn (first_value (Data v1)) (\<lambda>d.
        bind_exn (float_of_str d) (\<lambda>usage.
        let usage' = (if float_le_int usage 1 then float_times_100 usage else usage)
        in bind_exn (int_of_float usage') (\<lambda>n.
          Inr (new_Event (uid @ ''_'' @ as_str v1) ''Processor Usage'' ''sensor'' None
                 (Some ''percent'') (IntValue n) (Some DIAGNOSTIC) None)))))))"

subsection \<open>The datetime parsers\<close>

text \<open>
  \<open>dt_util.parse_datetime\<close> and \<open>dt_util.as_local\<close> belong to \<open>homeassistant.util.dt\<close>,
  which is not among the source files: they are parameters here. \<open>parse_datetime\<close> raises,
  returns \<open>None\<close> or returns a datetime; \<open>as_local\<close> raises or returns a datetime.
\<close>

type_synonym parse_datetime_fn = "string \<Rightarrow> exn + datetime option"
type_synonym as_local_fn = "datetime \<Rightarrow> exn + datetime"

definition local_datetime_or_none ::
  "parse_datetime_fn \<Rightarrow> as_local_fn \<Rightarrow> string \<Rightarrow> exn + datetime option" where
  "local_datetime_or_none parse_datetime as_local v =
     (case parse_datetime v of
        Inl ValueError \<Rightarrow> Inr None
      | Inl e \<Rightarrow> Inl e
      | Inr (Some ret) \<Rightarrow> bind_exn (as_local ret) (\<lambda>r. Inr (Some r))
      | Inr None \<Rightarrow> Inr None)"

text \<open>
  The shape shared by the four datetime parsers, which differ in the name and in whether
  they pass \<open>entity_enabled=False\<close>.
\<close>

definition datetime_parser ::
  "string \<Rightarrow> bool option \<Rightarrow> parse_datetime_fn \<Rightarrow> as_local_fn
     \<Rightarrow> string \<Rightarrow> notification \<Rightarrow> exn + Event option" where
  "datetime_parser nm enabled parse_datetime as_local = (\<lambda>uid msg.
     try_except
       (bind_exn (get_value_1 msg) (\<lambda>v1.
        bind_exn (first_value (Data v1)) (\<lambda>d.
        bind_exn (local_datetime_or_none parse_datetime as_local d) (\<lambda>date_time.
          Inr (new_Event (uid @ ''_'' @ as_str v1) nm ''sensor'' (Some ''timestamp'') None
                 (case date_time of None \<Rightarrow> NoneValue | Some t \<Rightarrow> DatetimeValue t)
                 (Some DIAGNOSTIC) enabled))))))"

definition async_parse_last_reboot ::
  "parse_datetime_fn \<Rightarrow> as_local_fn \<Rightarrow> string \<Rightarrow> notification \<Rightarrow> exn + Event option" where
  "async_parse_last_reboot = datetime_parser ''Last Reboot'' None"

definition async_parse_last_reset ::
  "parse_datetime_fn \<Rightarrow> as_local_fn \<Rightarrow> string \<Rightarrow> notification \<Rightarrow> exn + Event option" where
  "async_parse_last_reset = datetime_parser ''Last Reset'' (Some False)"

definition async_parse_backup_last ::
  "parse_datetime_fn \<Rightarrow> as_local_fn \<Rightarrow> string \<Rightarrow> notification \<Rightarrow> exn + Event option" where
  "async_parse_backup_last = datetime_parser ''Last Backup'' (Some False)"

definition async_parse_last_clock_sync ::
  "parse_datetime_fn \<Rightarrow> as_local_fn \<Rightarrow> string \<Rightarrow> notification \<Rightarrow> exn + Event option" where
  "async_parse_last_clock_sync = datetime_parser ''Last Clock Synchronization'' (Some False)"

subsection \<open>The registry\<close>

type_synonym parser = "string \<Rightarrow> notification \<Rightarrow> exn + Event option"

text \<open>
  Modelled from the spec: the class \<open>Registry\<close> of \<open>homeassistant.util.decorator\<close>, which
  is not among the source files. By section 4.1 of the spec, \<open>register(topic)\<close> associates
  a parser with the topic key and \<open>lookup\<close> retrieves the parser of exactly that key: the
  registry is a dictionary from topics to parsers, \<open>register\<close> stores an entry and
  \<open>lookup\<close> reads one.
\<close>

definition register :: "string \<Rightarrow> 'f \<Rightarrow> (string \<rightharpoonup> 'f) \<Rightarrow> (string \<rightharpoonup> 'f)" where
  "register topic func registry = registry(topic \<mapsto> func)"

definition lookup :: "(string \<rightharpoonup> 'f) \<Rightarrow> string \<Rightarrow> 'f option" where
  "lookup registry topic = registry topic"

text \<open>
  The \<open>@PARSERS.register(...)\<close> decorators of the module in the order they run: from top
  to bottom, and for one function from its lowest decorator up.
\<close>

definition registrations :: "parse_datetime_fn \<Rightarrow> as_local_fn \<Rightarrow> (string \<times> parser) list" where
  "registrations parse_datetime as_local =
     [(''tns1:VideoSource/MotionAlarm'', async_parse_motion_alarm),
      (''tns1:VideoSource/ImageTooBlurry/RecordingService'', async_parse_image_too_blurry),
      (''tns1:VideoSource/ImageTooBlurry/ImagingService'', async_parse_image_too_blurry),
      (''tns1:VideoSource/ImageTooBlurry/AnalyticsService'', async_parse_image_too_blurry),
      (''tns1:VideoSource/ImageTooDark/RecordingService'', async_parse_image_too_dark),
      (''tns1:VideoSource/ImageTooDark/ImagingService'', async_parse_image_too_dark),
      (''tns1:VideoSource/ImageTooDark/AnalyticsService'', async_parse_image_too_dark),
      (''tns1:VideoSource/ImageTooBright/RecordingService'', async_parse_image_too_bright),
      (''tns1:VideoSource/ImageTooBright/ImagingService'', async_parse_image_too_bright),
      (''tns1:VideoSource/ImageTooBright/AnalyticsService'', async_parse_image_too_bright),
      (''tns1:VideoSource/GlobalSceneChange/RecordingService'', async_parse_scene_change),
      (''tns1:VideoSource/GlobalSceneChange/ImagingService'', async_parse_scene_change),
      (''tns1:VideoSource/GlobalSceneChange/AnalyticsService'', async_parse_scene_change),
      (''tns1:AudioAnalytics/Audio/DetectedSound'', async_parse_detected_sound),
      (''tns1:RuleEngine/FieldDetector/ObjectsInside'', async_parse_field_detector),
      (''tns1:RuleEngine/CellMotionDetector/Motion'', async_parse_cell_motion_detector),
      (''tns1:RuleEngine/MotionRegionDetector/Motion'', async_parse_motion_region_detector),
      (''tns1:RuleEngine/TamperDetector/Tamper'', async_parse_tamper_detector),
      (''tns1:RuleEngine/MyRuleDetector/DogCatDetect'', async_parse_dog_cat_detector),
      (''tns1:RuleEngine/MyRuleDetector/VehicleDetect'', async_parse_vehicle_detector),
      (''tns1:RuleEngine/MyRuleDetector/PeopleDetect'', async_parse_person_detector),
      (''tns1:RuleEngine/MyRuleDetector/FaceDetect'', async_parse_face_detector),
      (''tns1:RuleEngine/MyRuleDetector/Visitor'', async_parse_visitor_detector),
      (''tns1:Device/Trigger/DigitalInput'', async_parse_digital_input),
      (''tns1:Device/Trigger/Relay'', async_parse_relay),
      (''tns1:Device/HardwareFailure/StorageFailure'', async_parse_storage_failure),
      (''tns1:Monitoring/ProcessorUsage'', async_parse_processor_usage),
      (''tns1:Monitoring/OperatingTime/LastReboot'',
         async_parse_last_reboot parse_datetime as_local),
      (''tns1:Monitoring/OperatingTime/LastReset'',
         async_parse_last_reset parse_datetime as_local),
      (''tns1:Monitoring/Backup/Last'', async_parse_backup_last parse_datetime as_local),
      (''tns1:Monitoring/OperatingTime/LastClockSynchronization'',
         async_parse_last_clock_sync parse_datetime as_local),
      (''tns1:RecordingConfig/JobState'', async_parse_jobstate),
      (''tns1:RuleEngine/LineDetector/Crossed'', async_parse_linedetector_crossed),
      (''tns1:RuleEngine/CountAggregation/Counter'', async_parse_count_aggregation_counter)]"

definition PARSERS :: "parse_datetime_fn \<Rightarrow> as_local_fn \<Rightarrow> (string \<rightharpoonup> parser)" where
  "PARSERS parse_datetime as_local =
     foldl (\<lambda>registry (topic, func). register topic func registry) Map.empty
       (registrations parse_datetime as_local)"

subsection \<open>Readings and example messages used in the statements\<close>

text \<open>\<open>msg.Message._value_1.Data.SimpleItem[0].Value\<close>, the raw string of the data item.\<close>

definition data_value :: "notification \<Rightarrow> exn + string" where
  "data_value msg = bind_exn (get_value_1 msg) (\<lambda>v1. first_value (Data v1))"

text \<open>A well-formed item and a well-formed message with the given text and items.\<close>

definition mk_item :: "string \<Rightarrow> string \<Rightarrow> simple_item" where
  "mk_item n v = \<lparr>Name = Some n, Value = Some v\<rparr>"

definition mk_msg :: "string \<Rightarrow> simple_item list \<Rightarrow> simple_item list \<Rightarrow> notification" where
  "mk_msg text source_items data_items =
     \<lparr>Message = Some \<lparr>value_1 = Some
        \<lparr>as_str = text,
         Source = Some \<lparr>SimpleItem = Some source_items\<rparr>,
         Data = Some \<lparr>SimpleItem = Some data_items\<rparr>\<rparr>\<rparr>\<rparr>"

text \<open>A message with one source item and the data value \<open>d\<close>.\<close>

definition state_msg :: "string \<Rightarrow> notification" where
  "state_msg d = mk_msg ''payload'' [mk_item ''Source'' ''cam1''] [mk_item ''State'' d]"

text \<open>The value of the Event a parser returned.\<close>

definition value_of_result :: "exn + Event option \<Rightarrow> exn + event_value option" where
  "value_of_result r = map_sum id (map_option value) r"


text \<open>Whether the Event a parser returned is enabled, and its uid.\<close>

definition enabled_of_result :: "exn + Event option \<Rightarrow> exn + bool option" where
  "enabled_of_result r = map_sum id (map_option entity_enabled) r"

definition uid_of_result :: "exn + Event option \<Rightarrow> exn + string option" where
  "uid_of_result r = map_sum id (map_option uid) r"

text \<open>
  Stand-ins for \<open>parse_datetime\<close> and \<open>as_local\<close> in the examples: the first raises
  ValueError on the all-zero timestamp, parses one timestamp and returns \<open>None\<close> otherwise;
  the second leaves the datetime as it is.
\<close>

definition example_parse_datetime :: parse_datetime_fn where
  "example_parse_datetime s =
     (if s = ''0000-00-00T00:00:00Z'' then Inl ValueError
      else if s = ''2021-05-01T10:00:00Z''
      then Inr (Some \<lparr>year = 2021, month = 5, day = 1, hour = 10, minute = 0, second = 0,
                       microsecond = 0, utcoffset = Some 0\<rparr>)
      else Inr None)"

definition example_as_local :: as_local_fn where
  "example_as_local t = Inr t"

text \<open>The parsers that put the value of the source item named \<open>Rule\<close> into the uid.\<close>

definition rule_parsers :: "parser list" where
  "rule_parsers =
     [async_parse_detected_sound, async_parse_field_detector, async_parse_cell_motion_detector,
      async_parse_motion_region_detector, async_parse_tamper_detector,
      async_parse_linedetector_crossed, async_parse_count_aggregation_counter]"

text \<open>A message whose source items are \<open>pre\<close>, the item \<open>Rule\<close> with the value \<open>r\<close>, and \<open>post\<close>.\<close>

definition rule_msg ::
  "string \<Rightarrow> simple_item list \<Rightarrow> string \<Rightarrow> simple_item list \<Rightarrow> simple_item list
     \<Rightarrow> notification" where
  "rule_msg text pre r post data_items = mk_msg text (pre @ [mk_item ''Rule'' r] @ post) data_items"

text \<open>A message of a camera that reports the video source token \<open>vsconf\<close>.\<close>

definition vsconf_msg :: notification where
  "vsconf_msg =
     mk_msg ''payload''
       [mk_item ''VideoSourceConfigurationToken'' ''vsconf'',
        mk_item ''VideoAnalyticsConfigurationToken'' ''analytics0'',
        mk_item ''Rule'' ''line1'']
       [mk_item ''ObjectId'' ''7'']"

text \<open>
  What a parser reads of the source items: the value of the first one, the items one
  after the other by their names (with the names whose value it takes), or nothing.
\<close>

datatype reads = FirstSource | NamedSource "string list" | DataOnly

text \<open>Each parser function of the module with what its body reads of the source items.\<close>

definition parser_reads :: "parse_datetime_fn \<Rightarrow> as_local_fn \<Rightarrow> (parser \<times> reads) list" where
  "parser_reads parse_datetime as_local =
     [(async_parse_motion_alarm, FirstSource),
      (async_parse_image_too_blurry, FirstSource),
      (async_parse_image_too_dark, FirstSource),
      (async_parse_image_too_bright, FirstSource),
      (async_parse_scene_change, FirstSource),
      (async_parse_detected_sound,
         NamedSource [''AudioSourceConfigurationToken'', ''AudioAnalyticsConfigurationToken'',
                      ''Rule'']),
      (async_parse_field_detector,
         NamedSource [''VideoSourceConfigurationToken'', ''VideoAnalyticsConfigurationToken'',
                      ''Rule'']),
      (async_parse_cell_motion_detector,
         NamedSource [''VideoSourceConfigurationToken'', ''VideoAnalyticsConfigurationToken'',
                      ''Rule'']),
      (async_parse_motion_region_detector,
         NamedSource [''VideoSourceConfigurationToken'', ''VideoAnalyticsConfigurationToken'',
                      ''Rule'']),
      (async_parse_tamper_detector,
         NamedSource [''VideoSourceConfigurationToken'', ''VideoAnalyticsConfigurationToken'',
                      ''Rule'']),
      (async_parse_dog_cat_detector, NamedSource [''Source'']),
      (async_parse_vehicle_detector, NamedSource [''Source'']),
      (async_parse_person_detector, NamedSource [''Source'']),
      (async_parse_face_detector, NamedSource [''Source'']),
      (async_parse_visitor_detector, NamedSource [''Source'']),
      (async_parse_digital_input, FirstSource),
      (async_parse_relay, FirstSource),
      (async_parse_storage_failure, FirstSource),
      (async_parse_processor_usage, DataOnly),
      (async_parse_last_reboot parse_datetime as_local, DataOnly),
      (async_parse_last_reset parse_datetime as_local, DataOnly),
      (async_parse_backup_last parse_datetime as_local, DataOnly),
      (async_parse_last_clock_sync parse_datetime as_local, DataOnly),
      (async_parse_jobstate, FirstSource),
      (async_parse_linedetector_crossed,
         NamedSource [''VideoSourceConfigurationToken'', ''VideoAnalyticsConfigurationToken'',
                      ''Rule'']),
      (async_parse_count_aggregation_counter,
         NamedSource [''VideoSourceConfigurationToken'', ''VideoAnalyticsConfigurationToken'',
                      ''Rule''])]"

text \<open>The parsers that call \<open>parse_datetime\<close> and \<open>as_local\<close>.\<close>

definition datetime_parsers :: "parse_datetime_fn \<Rightarrow> as_local_fn \<Rightarrow> parser list" where
  "datetime_parsers parse_datetime as_local =
     [async_parse_last_reboot parse_datetime as_local,
      async_parse_last_reset parse_datetime as_local,
      async_parse_backup_last parse_datetime as_local,
      async_parse_last_clock_sync parse_datetime as_local]"

text \<open>
  \<open>holder.SimpleItem[0].Value\<close> lacks an attribute: the holder, its \<open>SimpleItem\<close> or the
  \<open>Value\<close> of the first item is absent. The list is there and empty.
\<close>

definition first_missing :: "item_list option \<Rightarrow> bool" where
  "first_missing holder =
     (case holder of
        None \<Rightarrow> True
      | Some h \<Rightarrow>
          (case SimpleItem h of
             None \<Rightarrow> True
           | Some [] \<Rightarrow> False
           | Some (x # _) \<Rightarrow> Value x = None))"

definition first_empty :: "item_list option \<Rightarrow> bool" where
  "first_empty holder =
     (case holder of None \<Rightarrow> False | Some h \<Rightarrow> SimpleItem h = Some [])"

text \<open>
  An item that a loop over the source items cannot read: its \<open>Name\<close> is absent, or it has
  one of the names whose value the loop takes and its \<open>Value\<close> is absent. The source items
  lack an attribute for such a loop: the holder or its \<open>SimpleItem\<close> is absent, or one of
  the items cannot be read.
\<close>

definition item_missing :: "string list \<Rightarrow> simple_item \<Rightarrow> bool" where
  "item_missing names x =
     (case Name x of None \<Rightarrow> True | Some n \<Rightarrow> n \<in> set names \<and> Value x = None)"

definition items_missing :: "string list \<Rightarrow> item_list option \<Rightarrow> bool" where
  "items_missing names holder =
     (case holder of
        None \<Rightarrow> True
      | Some h \<Rightarrow>
          (case SimpleItem h of None \<Rightarrow> True | Some xs \<Rightarrow> list_ex (item_missing names) xs))"

text \<open>
  The message lacks an attribute on the way of a parser that reads the source items as
  \<open>r\<close> says: the first thing the parser cannot read is an attribute that is absent, be it
  \<open>Message\<close>, \<open>_value_1\<close>, a part of the source items that it reads or, these read, a part
  of the first data item.
\<close>

definition missing_attribute :: "reads \<Rightarrow> notification \<Rightarrow> bool" where
  "missing_attribute r msg =
     (case Message msg of
        None \<Rightarrow> True
      | Some m \<Rightarrow>
          (case value_1 m of
             None \<Rightarrow> True
           | Some v1 \<Rightarrow>
               (case r of
                  FirstSource \<Rightarrow>
                    first_missing (Source v1)
                    \<or> (\<not> first_empty (Source v1) \<and> first_missing (Data v1))
                | NamedSource names \<Rightarrow>
                    items_missing names (Source v1) \<or> first_missing (Data v1)
                | DataOnly \<Rightarrow> first_missing (Data v1))))"

text \<open>Messages that lack a part.\<close>

definition no_message_msg :: notification where
  "no_message_msg = \<lparr>Message = None\<rparr>"

definition no_data_items_msg :: notification where
  "no_data_items_msg = mk_msg ''payload'' [mk_item ''Source'' ''cam1''] []"

definition no_data_msg :: notification where
  "no_data_msg =
     \<lparr>Message = Some \<lparr>value_1 = Some
        \<lparr>as_str = ''payload'',
         Source = Some \<lparr>SimpleItem = Some [mk_item ''Source'' ''cam1'']\<rparr>,
         Data = None\<rparr>\<rparr>\<rparr>"

definition no_source_msg :: notification where
  "no_source_msg =
     \<lparr>Message = Some \<lparr>value_1 = Some
        \<lparr>as_str = ''payload'',
         Source = None,
         Data = Some \<lparr>SimpleItem = Some [mk_item ''State'' ''true'']\<rparr>\<rparr>\<rparr>\<rparr>"

definition valueless_source_msg :: notification where
  "valueless_source_msg =
     mk_msg ''payload'' [\<lparr>Name = Some ''Source'', Value = None\<rparr>] [mk_item ''State'' ''true'']"

definition nameless_source_msg :: notification where
  "nameless_source_msg =
     mk_msg ''payload'' [\<lparr>Name = None, Value = Some ''cam1''\<rparr>] [mk_item ''State'' ''true'']"

definition empty_source_no_data_msg :: notification where
  "empty_source_no_data_msg =
     \<lparr>Message = Some \<lparr>value_1 = Some
        \<lparr>as_str = ''payload'',
         Source = Some \<lparr>SimpleItem = Some []\<rparr>,
         Data = None\<rparr>\<rparr>\<rparr>"

section \<open>Properties\<close>

subsection \<open>Evaluation rules\<close>

lemma bind_exn_simps [simp]:
  "bind_exn (Inl e) f = Inl e"
  "bind_exn (Inr x) f = f x"
  by (simp_all add: bind_exn_def)

lemma bind_exn_eq_Inr: "bind_exn m f = Inr y \<longleftrightarrow> (\<exists>x. m = Inr x \<and> f x = Inr y)"
  by (cases m) simp_all

lemma getattr_simps [simp]:
  "getattr None = Inl AttributeError"
  "getattr (Some v) = Inr v"
  by (simp_all add: getattr_def)

lemma index0_simps [simp]:
  "index0 [] = Inl IndexError"
  "index0 (x # xs) = Inr x"
  by (simp_all add: index0_def)

lemma try_except_simps [simp]:
  "try_except (Inr ev) = Inr (Some ev)"
  "try_except (Inl AttributeError) = Inr None"
  "try_except (Inl KeyError) = Inr None"
  "try_except (Inl IndexError) = Inl IndexError"
  "try_except (Inl ValueError) = Inl ValueError"
  "try_except (Inl OverflowError) = Inl OverflowError"
  by (simp_all add: try_except_def)

lemma try_except_eq_Some: "try_except b = Inr (Some ev) \<longleftrightarrow> b = Inr ev"
  by (auto simp: try_except_def split: sum.splits exn.splits)

lemma new_Event_sel [simp]:
  "uid (new_Event u n p dc un v cat en) = u"
  "value (new_Event u n p dc un v cat en) = v"
  "entity_enabled (new_Event u n p dc un v cat en) = (case en of None \<Rightarrow> True | Some b \<Rightarrow> b)"
  by (simp_all add: new_Event_def)

lemma value_of_result_simps [simp]:
  "value_of_result (Inl e) = Inl e"
  "value_of_result (Inr None) = Inr None"
  "value_of_result (Inr (Some ev)) = Inr (Some (value ev))"
  by (simp_all add: value_of_result_def)

lemma mk_item_sel [simp]:
  "Name (mk_item n v) = Some n"
  "Value (mk_item n v) = Some v"
  by (simp_all add: mk_item_def)

lemma get_value_1_mk_msg [simp]:
  "get_value_1 (mk_msg text src dat) =
     Inr \<lparr>as_str = text, Source = Some \<lparr>SimpleItem = Some src\<rparr>,
          Data = Some \<lparr>SimpleItem = Some dat\<rparr>\<rparr>"
  by (simp add: get_value_1_def mk_msg_def)

lemma get_items_Some [simp]: "get_items (Some \<lparr>SimpleItem = Some xs\<rparr>) = Inr xs"
  by (simp add: get_items_def)

lemma first_value_mk_item [simp]:
  "first_value (Some \<lparr>SimpleItem = Some (mk_item n v # xs)\<rparr>) = Inr v"
  by (simp add: first_value_def)

lemma first_value_empty [simp]:
  "first_value (Some \<lparr>SimpleItem = Some []\<rparr>) = Inl IndexError"
  by (simp add: first_value_def)

lemma data_value_mk_msg [simp]:
  "data_value (mk_msg text src (mk_item n d # xs)) = Inr d"
  by (simp add: data_value_def)

subsection \<open>What a returned Event tells about the message\<close>

lemma source0_parser_Some:
  assumes "source0_parser nm dc truthy cat u msg = Inr (Some ev)"
  shows "\<exists>v1 src d. get_value_1 msg = Inr v1 \<and> first_value (Source v1) = Inr src
           \<and> first_value (Data v1) = Inr d
           \<and> ev = new_Event (u @ ''_'' @ as_str v1 @ ''_'' @ src) nm ''binary_sensor'' dc None
                    (BoolValue (truthy d)) cat None"
  using assms unfolding source0_parser_def try_except_eq_Some bind_exn_eq_Inr by auto

lemma source0_parser_value:
  assumes "source0_parser nm dc truthy cat u msg = Inr (Some ev)"
  shows "\<exists>d. data_value msg = Inr d \<and> value ev = BoolValue (truthy d)"
  using source0_parser_Some[OF assms] by (auto simp: data_value_def)

text \<open>A message whose parts can all be read gives an Event.\<close>

lemma source0_parser_returns:
  assumes "get_value_1 msg = Inr v1" and "first_value (Source v1) = Inr src"
    and "first_value (Data v1) = Inr d"
  shows "source0_parser nm dc truthy cat u msg =
     Inr (Some (new_Event (u @ ''_'' @ as_str v1 @ ''_'' @ src) nm ''binary_sensor'' dc None
                  (BoolValue (truthy d)) cat None))"
  using assms by (simp add: source0_parser_def)

lemma token3_step_total:
  assumes "Name x \<noteq> None" and "Value x \<noteq> None"
  shows "\<exists>s'. token3_step k1 nf k2 k3 s x = Inr s'"
  using assms by (cases s) (auto simp: token3_step_def)

lemma for_each_total:
  assumes "\<And>s x. x \<in> set xs \<Longrightarrow> \<exists>s'. step s x = Inr s'"
  shows "\<exists>s'. for_each step xs s = Inr s'"
  using assms
proof (induction xs arbitrary: s)
  case Nil
  show ?case by simp
next
  case (Cons x xs)
  from Cons.prems[of x s] obtain s1 where s1: "step s x = Inr s1" by auto
  from Cons.IH[of s1] Cons.prems obtain s2 where "for_each step xs s1 = Inr s2" by auto
  with s1 show ?case by simp
qed

lemma token3_parser_returns:
  assumes "get_value_1 msg = Inr v1" and "get_items (Source v1) = Inr items"
    and "\<forall>x \<in> set items. Name x \<noteq> None \<and> Value x \<noteq> None"
    and "first_value (Data v1) = Inr d"
  shows "\<exists>ev. token3_parser k1 nf k2 k3 nm pf dc conv cat u msg = Inr (Some ev)
           \<and> value ev = conv d"
proof -
  have "\<exists>s'. for_each (token3_step k1 nf k2 k3) items ([], [], []) = Inr s'"
    using assms(3) by (intro for_each_total token3_step_total) auto
  then obtain vs va r where
    "for_each (token3_step k1 nf k2 k3) items ([], [], []) = Inr (vs, va, r)"
    by (metis prod_cases3)
  with assms(1,2,4) show ?thesis by (simp add: token3_parser_def)
qed

lemma source0_parser_state_msg [simp]:
  "source0_parser nm dc truthy cat u (state_msg d) =
     Inr (Some (new_Event (u @ ''_payload_cam1'') nm ''binary_sensor'' dc None
                  (BoolValue (truthy d)) cat None))"
  by (simp add: source0_parser_def state_msg_def)

subsection \<open>Video source normalization\<close>

text \<open>
  C10: video source normalization is idempotent: applying \<open>_normalize_video_source\<close> twice
  gives what applying it once gives, and its one output that differs from the input,
  \<open>VideoSourceToken\<close>, is not a key of the mapping.
\<close>

theorem normalize_video_source_idempotent:
  "normalize_video_source (normalize_video_source s) = normalize_video_source s
   \<and> VIDEO_SOURCE_MAPPING ''VideoSourceToken'' = None"
  by (simp add: normalize_video_source_def VIDEO_SOURCE_MAPPING_def)

subsection \<open>The recording job state\<close>

text \<open>
  C9: the Event that the recording job state parser returns has the value True exactly
  when the raw string of the data item is \<open>Active\<close> with a capital A; for the strings
  \<open>active\<close>, \<open>true\<close> and \<open>1\<close> the value is False.
\<close>

theorem jobstate_value_capital_Active:
  "async_parse_jobstate u msg = Inr (Some ev) \<Longrightarrow>
     \<exists>d. data_value msg = Inr d \<and> value ev = BoolValue (d = ''Active'')
       \<and> (d = ''active'' \<or> d = ''true'' \<or> d = ''1'' \<longrightarrow> value ev = BoolValue False)"
proof -
  assume "async_parse_jobstate u msg = Inr (Some ev)"
  then obtain d where d: "data_value msg = Inr d" "value ev = BoolValue (d = ''Active'')"
    unfolding async_parse_jobstate_def using source0_parser_value by blast
  have "d = ''active'' \<or> d = ''true'' \<or> d = ''1'' \<longrightarrow> value ev = BoolValue False"
    using d(2) by auto
  with d show ?thesis by blast
qed

theorem jobstate_value_capital_Active_witness:
  "value_of_result (async_parse_jobstate ''cam'' (state_msg ''Active'')) = Inr (Some (BoolValue True))
   \<and> value_of_result (async_parse_jobstate ''cam'' (state_msg ''active'')) = Inr (Some (BoolValue False))
   \<and> value_of_result (async_parse_jobstate ''cam'' (state_msg ''true'')) = Inr (Some (BoolValue False))
   \<and> value_of_result (async_parse_jobstate ''cam'' (state_msg ''1'')) = Inr (Some (BoolValue False))"
proof -
  have run: "\<exists>ev. async_parse_jobstate ''cam'' (state_msg d) = Inr (Some ev)" for d
    by (simp add: async_parse_jobstate_def)
  have dv: "data_value (state_msg d) = Inr d" for d
    by (simp add: state_msg_def)
  have "value_of_result (async_parse_jobstate ''cam'' (state_msg d)) =
          Inr (Some (BoolValue (d = ''Active'')))" for d
  proof -
    from run obtain ev where ev: "async_parse_jobstate ''cam'' (state_msg d) = Inr (Some ev)"
      by blast
    from jobstate_value_capital_Active[OF ev] dv have "value ev = BoolValue (d = ''Active'')"
      by auto
    with ev show ?thesis by simp
  qed
  then show ?thesis by simp
qed

lemma token3_parser_Some:
  assumes "token3_parser k1 nf k2 k3 nm pf dc conv cat u msg = Inr (Some ev)"
  shows "\<exists>v1 items vs va r d. get_value_1 msg = Inr v1 \<and> get_items (Source v1) = Inr items
           \<and> for_each (token3_step k1 nf k2 k3) items ([], [], []) = Inr (vs, va, r)
           \<and> first_value (Data v1) = Inr d
           \<and> ev = new_Event (u @ ''_'' @ as_str v1 @ ''_'' @ vs @ ''_'' @ va @ ''_'' @ r)
                    nm pf dc None (conv d) cat None"
  using assms unfolding token3_parser_def try_except_eq_Some
  by (auto simp: bind_exn_eq_Inr split: prod.splits)

lemma token3_parser_value:
  assumes "token3_parser k1 nf k2 k3 nm pf dc conv cat u msg = Inr (Some ev)"
  shows "\<exists>d. data_value msg = Inr d \<and> value ev = conv d"
  using token3_parser_Some[OF assms] by (auto simp: data_value_def)

lemma datetime_parser_Some:
  assumes "datetime_parser nm en pd al u msg = Inr (Some ev)"
  shows "\<exists>v1 d t. get_value_1 msg = Inr v1 \<and> first_value (Data v1) = Inr d
           \<and> local_datetime_or_none pd al d = Inr t
           \<and> ev = new_Event (u @ ''_'' @ as_str v1) nm ''sensor'' (Some ''timestamp'') None
                    (case t of None \<Rightarrow> NoneValue | Some t' \<Rightarrow> DatetimeValue t')
                    (Some DIAGNOSTIC) en"
  using assms unfolding datetime_parser_def try_except_eq_Some bind_exn_eq_Inr by auto

lemma data_value_Inr:
  "data_value msg = Inr d \<longleftrightarrow> (\<exists>v1. get_value_1 msg = Inr v1 \<and> first_value (Data v1) = Inr d)"
  by (simp add: data_value_def bind_exn_eq_Inr)

lemma token3_parser_state_msg [simp]:
  "token3_parser ''VideoSourceConfigurationToken'' nf ''VideoAnalyticsConfigurationToken'' ''Rule''
       nm pf dc conv cat u (state_msg d) =
     Inr (Some (new_Event (u @ ''_payload___'') nm pf dc None (conv d) cat None))"
  by (simp add: token3_parser_def state_msg_def token3_step_def)

lemma datetime_parser_state_msg [simp]:
  "datetime_parser nm en pd al u (state_msg d) =
     try_except (bind_exn (local_datetime_or_none pd al d) (\<lambda>date_time.
       Inr (new_Event (u @ ''_payload'') nm ''sensor'' (Some ''timestamp'') None
              (case date_time of None \<Rightarrow> NoneValue | Some t \<Rightarrow> DatetimeValue t)
              (Some DIAGNOSTIC) en)))"
  by (simp add: datetime_parser_def state_msg_def)

lemma data_value_state_msg [simp]: "data_value (state_msg d) = Inr d"
  by (simp add: state_msg_def)

subsection \<open>Boolean values\<close>

text \<open>
  C4: the literal that makes a boolean Event True depends on the topic. The Events that
  the motion alarm, image too blurry and tamper parsers return have the value True
  exactly when the raw string of the data item is \<open>true\<close>; for the relay parser it is
  \<open>active\<close> (so \<open>true\<close> gives False there); for the motion region detector parser it is
  \<open>1\<close> or \<open>true\<close>.
\<close>

theorem boolean_coercion_per_topic:
  "(\<forall>ev. async_parse_motion_alarm u msg = Inr (Some ev) \<longrightarrow>
      (\<exists>d. data_value msg = Inr d \<and> value ev = BoolValue (d = ''true'')))
   \<and> (\<forall>ev. async_parse_image_too_blurry u msg = Inr (Some ev) \<longrightarrow>
      (\<exists>d. data_value msg = Inr d \<and> value ev = BoolValue (d = ''true'')))
   \<and> (\<forall>ev. async_parse_tamper_detector u msg = Inr (Some ev) \<longrightarrow>
      (\<exists>d. data_value msg = Inr d \<and> value ev = BoolValue (d = ''true'')))
   \<and> (\<forall>ev. async_parse_relay u msg = Inr (Some ev) \<longrightarrow>
      (\<exists>d. data_value msg = Inr d \<and> value ev = BoolValue (d = ''active'')))
   \<and> (\<forall>ev. async_parse_motion_region_detector u msg = Inr (Some ev) \<longrightarrow>
      (\<exists>d. data_value msg = Inr d \<and> value ev = BoolValue (d = ''1'' \<or> d = ''true'')))"
proof (intro conjI allI impI)
  fix ev assume "async_parse_motion_alarm u msg = Inr (Some ev)"
  then show "\<exists>d. data_value msg = Inr d \<and> value ev = BoolValue (d = ''true'')"
    unfolding async_parse_motion_alarm_def by (rule source0_parser_value)
next
  fix ev assume "async_parse_image_too_blurry u msg = Inr (Some ev)"
  then show "\<exists>d. data_value msg = Inr d \<and> value ev = BoolValue (d = ''true'')"
    unfolding async_parse_image_too_blurry_def by (rule source0_parser_value)
next
  fix ev assume "async_parse_tamper_detector u msg = Inr (Some ev)"
  then show "\<exists>d. data_value msg = Inr d \<and> value ev = BoolValue (d = ''true'')"
    unfolding async_parse_tamper_detector_def by (rule token3_parser_value)
next
  fix ev assume "async_parse_relay u msg = Inr (Some ev)"
  then show "\<exists>d. data_value msg = Inr d \<and> value ev = BoolValue (d = ''active'')"
    unfolding async_parse_relay_def by (rule source0_parser_value)
next
  fix ev assume "async_parse_motion_region_detector u msg = Inr (Some ev)"
  then have "\<exists>d. data_value msg = Inr d \<and> value ev = BoolValue (d \<in> set [''1'', ''true''])"
    unfolding async_parse_motion_region_detector_def by (rule token3_parser_value)
  then show "\<exists>d. data_value msg = Inr d \<and> value ev = BoolValue (d = ''1'' \<or> d = ''true'')"
    by simp
qed

theorem boolean_coercion_per_topic_witness:
  "value_of_result (async_parse_motion_alarm ''cam'' (state_msg ''true'')) = Inr (Some (BoolValue True))
   \<and> value_of_result (async_parse_image_too_blurry ''cam'' (state_msg ''true''))
       = Inr (Some (BoolValue True))
   \<and> value_of_result (async_parse_tamper_detector ''cam'' (state_msg ''true''))
       = Inr (Some (BoolValue True))
   \<and> value_of_result (async_parse_relay ''cam'' (state_msg ''true'')) = Inr (Some (BoolValue False))
   \<and> value_of_result (async_parse_motion_region_detector ''cam'' (state_msg ''true''))
       = Inr (Some (BoolValue True))"
proof -
  let ?m = "state_msg ''true''"
  note inst = boolean_coercion_per_topic[of "''cam''" ?m]
  obtain e1 where e1: "async_parse_motion_alarm ''cam'' ?m = Inr (Some e1)"
    by (simp add: async_parse_motion_alarm_def)
  obtain e2 where e2: "async_parse_image_too_blurry ''cam'' ?m = Inr (Some e2)"
    by (simp add: async_parse_image_too_blurry_def)
  obtain e3 where e3: "async_parse_tamper_detector ''cam'' ?m = Inr (Some e3)"
    by (simp add: async_parse_tamper_detector_def)
  obtain e4 where e4: "async_parse_relay ''cam'' ?m = Inr (Some e4)"
    by (simp add: async_parse_relay_def)
  obtain e5 where e5: "async_parse_motion_region_detector ''cam'' ?m = Inr (Some e5)"
    by (simp add: async_parse_motion_region_detector_def)
  from inst e1 have "value e1 = BoolValue True" by auto
  moreover from inst e2 have "value e2 = BoolValue True" by auto
  moreover from inst e3 have "value e3 = BoolValue True" by auto
  moreover from inst e4 have "value e4 = BoolValue False" by auto
  moreover from inst e5 have "value e5 = BoolValue True" by auto
  ultimately show ?thesis using e1 e2 e3 e4 e5 by simp
qed

subsection \<open>Entity enabled\<close>

text \<open>
  C8: \<open>entity_enabled\<close> of an Event is true when the constructor is not given it; the
  Events that the last reset, last backup and last clock synchronization parsers return
  have it false, and the Events of the last reboot parser have the default, true.
\<close>

theorem entity_enabled_of_datetime_parsers:
  "entity_enabled (new_Event eu en ep edc eun evl ecat None) = True
   \<and> (\<forall>ev. async_parse_last_reset pd al u msg = Inr (Some ev) \<longrightarrow> entity_enabled ev = False)
   \<and> (\<forall>ev. async_parse_backup_last pd al u msg = Inr (Some ev) \<longrightarrow> entity_enabled ev = False)
   \<and> (\<forall>ev. async_parse_last_clock_sync pd al u msg = Inr (Some ev) \<longrightarrow>
         entity_enabled ev = False)
   \<and> (\<forall>ev. async_parse_last_reboot pd al u msg = Inr (Some ev) \<longrightarrow> entity_enabled ev = True)"
  unfolding async_parse_last_reset_def async_parse_backup_last_def
    async_parse_last_clock_sync_def async_parse_last_reboot_def
  by (auto dest!: datetime_parser_Some)

lemma local_datetime_or_none_example [simp]:
  "local_datetime_or_none example_parse_datetime example_as_local ''2021-05-01T10:00:00Z'' =
     Inr (Some \<lparr>year = 2021, month = 5, day = 1, hour = 10, minute = 0, second = 0,
                microsecond = 0, utcoffset = Some 0\<rparr>)"
  "local_datetime_or_none example_parse_datetime example_as_local ''0000-00-00T00:00:00Z'' =
     Inr None"
  by (simp_all add: local_datetime_or_none_def example_parse_datetime_def example_as_local_def)

theorem entity_enabled_of_datetime_parsers_witness:
  "enabled_of_result (async_parse_last_reset example_parse_datetime example_as_local
      ''cam'' (state_msg ''2021-05-01T10:00:00Z'')) = Inr (Some False)
   \<and> enabled_of_result (async_parse_backup_last example_parse_datetime example_as_local
      ''cam'' (state_msg ''2021-05-01T10:00:00Z'')) = Inr (Some False)
   \<and> enabled_of_result (async_parse_last_clock_sync example_parse_datetime example_as_local
      ''cam'' (state_msg ''2021-05-01T10:00:00Z'')) = Inr (Some False)
   \<and> enabled_of_result (async_parse_last_reboot example_parse_datetime example_as_local
      ''cam'' (state_msg ''2021-05-01T10:00:00Z'')) = Inr (Some True)"
proof -
  let ?m = "state_msg ''2021-05-01T10:00:00Z''"
  note inst = entity_enabled_of_datetime_parsers
    [of _ _ _ _ _ _ _ example_parse_datetime example_as_local "''cam''" ?m]
  obtain e1 where e1:
    "async_parse_last_reset example_parse_datetime example_as_local ''cam'' ?m = Inr (Some e1)"
    by (simp add: async_parse_last_reset_def)
  obtain e2 where e2:
    "async_parse_backup_last example_parse_datetime example_as_local ''cam'' ?m = Inr (Some e2)"
    by (simp add: async_parse_backup_last_def)
  obtain e3 where e3:
    "async_parse_last_clock_sync example_parse_datetime example_as_local ''cam'' ?m = Inr (Some e3)"
    by (simp add: async_parse_last_clock_sync_def)
  obtain e4 where e4:
    "async_parse_last_reboot example_parse_datetime example_as_local ''cam'' ?m = Inr (Some e4)"
    by (simp add: async_parse_last_reboot_def)
  from inst e1 have "entity_enabled e1 = False" by blast
  moreover from inst e2 have "entity_enabled e2 = False" by blast
  moreover from inst e3 have "entity_enabled e3 = False" by blast
  moreover from inst e4 have "entity_enabled e4 = True" by blast
  ultimately show ?thesis using e1 e2 e3 e4 by (simp add: enabled_of_result_def)
qed

subsection \<open>Float arithmetic\<close>


















subsection \<open>Processor usage\<close>

lemma processor_usage_Some:
  assumes "async_parse_processor_usage u msg = Inr (Some ev)"
  shows "\<exists>v1 d f n. get_value_1 msg = Inr v1 \<and> first_value (Data v1) = Inr d
           \<and> float_of_str d = Inr f
           \<and> int_of_float (if float_le_int f 1 then float_times_100 f else f) = Inr n
           \<and> ev = new_Event (u @ ''_'' @ as_str v1) ''Processor Usage'' ''sensor'' None
                    (Some ''percent'') (IntValue n) (Some DIAGNOSTIC) None"
  using assms unfolding async_parse_processor_usage_def try_except_eq_Some
  by (auto simp: bind_exn_eq_Inr Let_def split del: if_split)












subsection \<open>Datetime values\<close>

lemma local_datetime_or_none_fails:
  assumes "pd d = Inl ValueError \<or> pd d = Inr None"
  shows "local_datetime_or_none pd al d = Inr None"
  using assms by (auto simp: local_datetime_or_none_def)

lemma datetime_parser_unparsable:
  assumes "data_value msg = Inr d" and "pd d = Inl ValueError \<or> pd d = Inr None"
  shows "\<exists>ev. datetime_parser nm en pd al u msg = Inr (Some ev) \<and> value ev = NoneValue"
proof -
  have "local_datetime_or_none pd al d = Inr None"
    using assms(2) by (rule local_datetime_or_none_fails)
  with assms(1) show ?thesis
    unfolding datetime_parser_def data_value_Inr by auto
qed

text \<open>
  C6: for each of the four datetime parsers (last reboot, last reset, last backup, last
  clock synchronization), a data value that fails datetime parsing, \<open>parse_datetime\<close>
  raising ValueError or returning \<open>None\<close> on it, gives an Event, not \<open>None\<close> and not an
  exception, and the value of that Event is \<open>None\<close>.
\<close>

theorem unparsable_datetime_gives_null_value:
  assumes "data_value msg = Inr d" and "pd d = Inl ValueError \<or> pd d = Inr None"
  shows "(\<exists>ev. async_parse_last_reboot pd al u msg = Inr (Some ev) \<and> value ev = NoneValue)
    \<and> (\<exists>ev. async_parse_last_reset pd al u msg = Inr (Some ev) \<and> value ev = NoneValue)
    \<and> (\<exists>ev. async_parse_backup_last pd al u msg = Inr (Some ev) \<and> value ev = NoneValue)
    \<and> (\<exists>ev. async_parse_last_clock_sync pd al u msg = Inr (Some ev) \<and> value ev = NoneValue)"
  unfolding async_parse_last_reboot_def async_parse_last_reset_def
    async_parse_backup_last_def async_parse_last_clock_sync_def
proof -
  have "\<exists>ev. datetime_parser nm en pd al u msg = Inr (Some ev) \<and> value ev = NoneValue" for nm en
    using assms by (rule datetime_parser_unparsable)
  then show "(\<exists>ev. datetime_parser ''Last Reboot'' None pd al u msg = Inr (Some ev)
        \<and> value ev = NoneValue)
    \<and> (\<exists>ev. datetime_parser ''Last Reset'' (Some False) pd al u msg = Inr (Some ev)
        \<and> value ev = NoneValue)
    \<and> (\<exists>ev. datetime_parser ''Last Backup'' (Some False) pd al u msg = Inr (Some ev)
        \<and> value ev = NoneValue)
    \<and> (\<exists>ev. datetime_parser ''Last Clock Synchronization'' (Some False) pd al u msg
          = Inr (Some ev) \<and> value ev = NoneValue)"
    by blast
qed

theorem unparsable_datetime_gives_null_value_witness:
  "value_of_result (async_parse_last_reboot example_parse_datetime example_as_local ''cam''
      (state_msg ''0000-00-00T00:00:00Z'')) = Inr (Some NoneValue)
   \<and> value_of_result (async_parse_last_reset example_parse_datetime example_as_local ''cam''
      (state_msg ''0000-00-00T00:00:00Z'')) = Inr (Some NoneValue)
   \<and> value_of_result (async_parse_backup_last example_parse_datetime example_as_local ''cam''
      (state_msg ''0000-00-00T00:00:00Z'')) = Inr (Some NoneValue)
   \<and> value_of_result (async_parse_last_clock_sync example_parse_datetime example_as_local ''cam''
      (state_msg ''0000-00-00T00:00:00Z'')) = Inr (Some NoneValue)"
proof -
  have dv: "data_value (state_msg ''0000-00-00T00:00:00Z'') = Inr ''0000-00-00T00:00:00Z''"
    by simp
  have fails: "example_parse_datetime ''0000-00-00T00:00:00Z'' = Inl ValueError
     \<or> example_parse_datetime ''0000-00-00T00:00:00Z'' = Inr None"
    by (simp add: example_parse_datetime_def)
  from unparsable_datetime_gives_null_value
    [of "state_msg ''0000-00-00T00:00:00Z''" "''0000-00-00T00:00:00Z''" example_parse_datetime
        example_as_local "''cam''"] dv fails
  show ?thesis by auto
qed

subsection \<open>The registry\<close>

lemma foldl_register:
  "foldl (\<lambda>registry (topic, func). register topic func registry) m xs = m ++ map_of (rev xs)"
proof (induction xs arbitrary: m)
  case Nil
  show ?case by simp
next
  case (Cons x xs)
  obtain t f where x: "x = (t, f)" by (cases x)
  have "foldl (\<lambda>registry (topic, func). register topic func registry) m (x # xs) =
        foldl (\<lambda>registry (topic, func). register topic func registry) (register t f m) xs"
    by (simp add: x)
  also have "\<dots> = register t f m ++ map_of (rev xs)"
    by (rule Cons.IH)
  also have "\<dots> = m ++ map_of (rev (x # xs))"
    by (simp add: x register_def)
  finally show ?case .
qed

lemma distinct_topics: "distinct (map fst (registrations pd al))"
  by (simp add: registrations_def)

lemma PARSERS_map_of: "PARSERS pd al = map_of (rev (registrations pd al))"
  by (simp add: PARSERS_def foldl_register)

lemma dom_PARSERS: "dom (PARSERS pd al) = set (map fst (registrations pd al))"
  by (simp add: PARSERS_map_of dom_map_of_conv_image_fst)

lemma PARSERS_registered:
  assumes "(t, f) \<in> set (registrations pd al)"
  shows "PARSERS pd al t = Some f"
proof -
  have "distinct (map fst (rev (registrations pd al)))"
    using distinct_topics[of pd al] by (simp add: rev_map[symmetric])
  moreover have "(t, f) \<in> set (rev (registrations pd al))"
    using assms by simp
  ultimately show ?thesis
    unfolding PARSERS_map_of by (rule map_of_is_SomeI)
qed

text \<open>
  C7: looking up a registered topic gives a parser; several topics may have the same
  parser, as the three \<open>ImageTooBlurry\<close> topics have; and a lookup matches the whole topic
  only: a string that is not a registered topic has no parser, whatever it is a prefix or
  a pattern of.
\<close>

theorem registry_exact_lookup:
  "(\<forall>t \<in> set (map fst (registrations pd al)). \<exists>f. lookup (PARSERS pd al) t = Some f)
   \<and> lookup (PARSERS pd al) ''tns1:VideoSource/ImageTooBlurry/AnalyticsService''
       = Some async_parse_image_too_blurry
   \<and> lookup (PARSERS pd al) ''tns1:VideoSource/ImageTooBlurry/ImagingService''
       = Some async_parse_image_too_blurry
   \<and> lookup (PARSERS pd al) ''tns1:VideoSource/ImageTooBlurry/RecordingService''
       = Some async_parse_image_too_blurry
   \<and> (\<forall>t. t \<notin> set (map fst (registrations pd al)) \<longrightarrow> lookup (PARSERS pd al) t = None)"
proof (intro conjI ballI allI impI)
  fix t assume "t \<in> set (map fst (registrations pd al))"
  then have "t \<in> dom (PARSERS pd al)" unfolding dom_PARSERS .
  then show "\<exists>f. lookup (PARSERS pd al) t = Some f" by (auto simp: lookup_def)
next
  show "lookup (PARSERS pd al) ''tns1:VideoSource/ImageTooBlurry/AnalyticsService''
       = Some async_parse_image_too_blurry"
    unfolding lookup_def by (rule PARSERS_registered) (simp add: registrations_def)
next
  show "lookup (PARSERS pd al) ''tns1:VideoSource/ImageTooBlurry/ImagingService''
       = Some async_parse_image_too_blurry"
    unfolding lookup_def by (rule PARSERS_registered) (simp add: registrations_def)
next
  show "lookup (PARSERS pd al) ''tns1:VideoSource/ImageTooBlurry/RecordingService''
       = Some async_parse_image_too_blurry"
    unfolding lookup_def by (rule PARSERS_registered) (simp add: registrations_def)
next
  fix t assume "t \<notin> set (map fst (registrations pd al))"
  then have "t \<notin> dom (PARSERS pd al)" unfolding dom_PARSERS .
  then show "lookup (PARSERS pd al) t = None" by (auto simp: lookup_def)
qed

theorem registry_exact_lookup_witness:
  "lookup (PARSERS example_parse_datetime example_as_local) ''tns1:Device/Trigger/Relay''
     = Some async_parse_relay
   \<and> lookup (PARSERS example_parse_datetime example_as_local) ''tns1:Device/Trigger'' = None
   \<and> lookup (PARSERS example_parse_datetime example_as_local) ''tns1:VideoSource/ImageTooBlurry/*''
     = None"
proof -
  note inst = registry_exact_lookup[of example_parse_datetime example_as_local]
  have reg: "''tns1:Device/Trigger/Relay''
      \<in> set (map fst (registrations example_parse_datetime example_as_local))"
    by (simp add: registrations_def)
  have "(''tns1:Device/Trigger/Relay'', async_parse_relay)
      \<in> set (registrations example_parse_datetime example_as_local)"
    by (simp add: registrations_def)
  then have relay: "PARSERS example_parse_datetime example_as_local ''tns1:Device/Trigger/Relay''
      = Some async_parse_relay"
    by (rule PARSERS_registered)
  from inst reg obtain f where
    "lookup (PARSERS example_parse_datetime example_as_local) ''tns1:Device/Trigger/Relay'' = Some f"
    by blast
  with relay have 1: "lookup (PARSERS example_parse_datetime example_as_local)
      ''tns1:Device/Trigger/Relay'' = Some async_parse_relay"
    by (simp add: lookup_def)
  have n2: "''tns1:Device/Trigger''
      \<notin> set (map fst (registrations example_parse_datetime example_as_local))"
    by (simp add: registrations_def)
  have n3: "''tns1:VideoSource/ImageTooBlurry/*''
      \<notin> set (map fst (registrations example_parse_datetime example_as_local))"
    by (simp add: registrations_def)
  from inst n2 have 2:
    "lookup (PARSERS example_parse_datetime example_as_local) ''tns1:Device/Trigger'' = None"
    by blast
  from inst n3 have 3: "lookup (PARSERS example_parse_datetime example_as_local)
      ''tns1:VideoSource/ImageTooBlurry/*'' = None"
    by blast
  from 1 2 3 show ?thesis by simp
qed

subsection \<open>The loop over the source items\<close>

lemma for_each_append:
  "for_each step (xs @ ys) s = bind_exn (for_each step xs s) (\<lambda>s'. for_each step ys s')"
proof (induction xs arbitrary: s)
  case Nil
  show ?case by simp
next
  case (Cons x xs)
  show ?case by (cases "step s x") (simp_all add: Cons.IH)
qed

lemma token3_step_named:
  "token3_step k1 nf k2 k3 (a, b, c) (mk_item n v) =
     Inr (if n = k1 then nf v else a, if n = k2 then v else b, if n = k3 then v else c)"
  by (simp add: token3_step_def)

text \<open>An item that is not named \<open>k3\<close> leaves the third token as it is.\<close>

lemma token3_step_other:
  assumes "Name x \<noteq> Some k3"
  shows "token3_step k1 nf k2 k3 (a, b, c) x =
           (case token3_step k1 nf k2 k3 (a, b, c0) x of
              Inl e \<Rightarrow> Inl e
            | Inr (a', b', _) \<Rightarrow> Inr (a', b', c))"
proof (cases "Name x")
  case None
  then show ?thesis by (simp add: token3_step_def)
next
  case (Some n)
  with assms have n: "n \<noteq> k3" by simp
  show ?thesis
    by (cases "Value x") (simp_all add: token3_step_def Some n)
qed

lemma for_each_token3_other:
  assumes "\<forall>x \<in> set xs. Name x \<noteq> Some k3"
  shows "for_each (token3_step k1 nf k2 k3) xs (a, b, c) =
           (case for_each (token3_step k1 nf k2 k3) xs (a, b, c0) of
              Inl e \<Rightarrow> Inl e
            | Inr (a', b', _) \<Rightarrow> Inr (a', b', c))"
  using assms
proof (induction xs arbitrary: a b)
  case Nil
  show ?case by simp
next
  case (Cons x xs)
  then have x: "Name x \<noteq> Some k3" and xs: "\<forall>y \<in> set xs. Name y \<noteq> Some k3"
    by simp_all
  show ?case
  proof (cases "token3_step k1 nf k2 k3 (a, b, c0) x")
    case (Inl e)
    then show ?thesis using token3_step_other[OF x, of k1 nf k2 a b c c0] by simp
  next
    case (Inr s)
    obtain a' b' c' where s: "s = (a', b', c')" by (cases s)
    have "token3_step k1 nf k2 k3 (a, b, c) x = Inr (a', b', c)"
      using token3_step_other[OF x, of k1 nf k2 a b c c0] Inr s by simp
    moreover have "c' = c0"
      using token3_step_other[OF x, of k1 nf k2 a b c0 c0] Inr s by simp
    ultimately show ?thesis
      using Cons.IH[OF xs, of a' b'] Inr s by simp
  qed
qed

text \<open>
  The loop over \<open>pre\<close>, the item \<open>Rule\<close> with the value \<open>r\<close>, and \<open>post\<close>, none of whose
  items is named \<open>Rule\<close>: the third token is \<open>r\<close>, and the other two do not depend on it.
\<close>

lemma for_each_rule_item:
  assumes "\<forall>x \<in> set post. Name x \<noteq> Some ''Rule''" and "k1 \<noteq> ''Rule''" and "k2 \<noteq> ''Rule''"
  shows "\<exists>res. \<forall>r. for_each (token3_step k1 nf k2 ''Rule'') (pre @ [mk_item ''Rule'' r] @ post)
                       ([], [], []) =
           (case res of Inl e \<Rightarrow> Inl e | Inr (a, b) \<Rightarrow> Inr (a, b, r))"
proof (cases "for_each (token3_step k1 nf k2 ''Rule'') pre ([], [], [])")
  case (Inl e)
  then have "\<forall>r. for_each (token3_step k1 nf k2 ''Rule'') (pre @ [mk_item ''Rule'' r] @ post)
                 ([], [], []) = (case Inl e of Inl e \<Rightarrow> Inl e | Inr (a, b) \<Rightarrow> Inr (a, b, r))"
    by (simp add: for_each_append)
  then show ?thesis by blast
next
  case (Inr s)
  obtain a b c where s: "s = (a, b, c)" by (cases s)
  have k: "''Rule'' \<noteq> k1" "''Rule'' \<noteq> k2" using assms(2,3) by auto
  have run: "for_each (token3_step k1 nf k2 ''Rule'') (pre @ [mk_item ''Rule'' r] @ post)
           ([], [], []) =
        (case for_each (token3_step k1 nf k2 ''Rule'') post (a, b, []) of
           Inl e \<Rightarrow> Inl e
         | Inr (a', b', _) \<Rightarrow> Inr (a', b', r))" for r
    using for_each_token3_other[OF assms(1), of k1 nf k2 a b r "[]"]
    by (simp add: for_each_append Inr s token3_step_named k)
  show ?thesis
  proof (cases "for_each (token3_step k1 nf k2 ''Rule'') post (a, b, [])")
    case (Inl e)
    with run have "\<forall>r. for_each (token3_step k1 nf k2 ''Rule'')
          (pre @ [mk_item ''Rule'' r] @ post) ([], [], []) =
        (case Inl e of Inl e \<Rightarrow> Inl e | Inr (a, b) \<Rightarrow> Inr (a, b, r))"
      by simp
    then show ?thesis by blast
  next
    case (Inr s')
    obtain a' b' c' where "s' = (a', b', c')" by (cases s')
    with run Inr have "\<forall>r. for_each (token3_step k1 nf k2 ''Rule'')
          (pre @ [mk_item ''Rule'' r] @ post) ([], [], []) =
        (case Inr (a', b') of Inl e \<Rightarrow> Inl e | Inr (a, b) \<Rightarrow> Inr (a, b, r))"
      by simp
    then show ?thesis by blast
  qed
qed

subsection \<open>The uid\<close>

lemma token3_parser_rule_differs:
  assumes post: "\<forall>x \<in> set post. Name x \<noteq> Some ''Rule''"
    and k: "k1 \<noteq> ''Rule''" "k2 \<noteq> ''Rule''"
    and r: "r1 \<noteq> r2"
    and e1: "token3_parser k1 nf k2 ''Rule'' nm pf dc conv cat u (rule_msg text pre r1 post dat)
               = Inr (Some e1)"
  shows "\<exists>e2. token3_parser k1 nf k2 ''Rule'' nm pf dc conv cat u (rule_msg text pre r2 post dat)
               = Inr (Some e2) \<and> uid e2 \<noteq> uid e1"
proof -
  from for_each_rule_item[OF post k, of nf pre] obtain res where
    res: "\<And>r. for_each (token3_step k1 nf k2 ''Rule'') (pre @ [mk_item ''Rule'' r] @ post)
                ([], [], []) =
           (case res of Inl e \<Rightarrow> Inl e | Inr (a, b) \<Rightarrow> Inr (a, b, r))"
    by blast
  have run: "token3_parser k1 nf k2 ''Rule'' nm pf dc conv cat u (rule_msg text pre r post dat) =
      try_except
        (bind_exn (case res of Inl e \<Rightarrow> Inl e | Inr (a, b) \<Rightarrow> Inr (a, b, r))
          (\<lambda>(video_source, video_analytics, rule).
            bind_exn (first_value (Some \<lparr>SimpleItem = Some dat\<rparr>)) (\<lambda>d.
              Inr (new_Event
                     (u @ ''_'' @ text @ ''_'' @ video_source @ ''_'' @ video_analytics
                        @ ''_'' @ rule)
                     nm pf dc None (conv d) cat None))))" for r
    unfolding token3_parser_def rule_msg_def by (simp add: res del: append.simps)
  show ?thesis
  proof (cases res)
    case (Inl e)
    with e1 run[of r1] have False
      by (cases e) simp_all
    then show ?thesis ..
  next
    case (Inr ab)
    obtain a b where ab: "ab = (a, b)" by (cases ab)
    show ?thesis
    proof (cases "first_value (Some \<lparr>SimpleItem = Some dat\<rparr>)")
      case (Inl e)
      with e1 run[of r1] Inr ab have False
        by (cases e) simp_all
      then show ?thesis ..
    next
      case d: (Inr d)
      from e1 run[of r1] Inr ab d have "uid e1 = u @ ''_'' @ text @ ''_'' @ a @ ''_'' @ b @ ''_'' @ r1"
        by auto
      moreover from run[of r2] Inr ab d have
        "token3_parser k1 nf k2 ''Rule'' nm pf dc conv cat u (rule_msg text pre r2 post dat) =
           Inr (Some (new_Event (u @ ''_'' @ text @ ''_'' @ a @ ''_'' @ b @ ''_'' @ r2)
                        nm pf dc None (conv d) cat None))"
        by simp
      ultimately show ?thesis using r by simp
    qed
  qed
qed

text \<open>For each shape of parser, the uid is made of the device uid, the text of the payload
  and the source items: the data items have no part in it.\<close>

lemma source0_parser_uid:
  assumes "get_value_1 m1 = Inr v1" "get_value_1 m2 = Inr v2"
    and "as_str v1 = as_str v2" "Source v1 = Source v2"
    and "source0_parser nm dc tr cat u m1 = Inr (Some e1)"
    and "source0_parser nm dc tr cat u m2 = Inr (Some e2)"
  shows "uid e1 = uid e2"
  using assms(1-4) source0_parser_Some[OF assms(5)] source0_parser_Some[OF assms(6)] by auto

lemma token3_parser_uid:
  assumes "get_value_1 m1 = Inr v1" "get_value_1 m2 = Inr v2"
    and "as_str v1 = as_str v2" "Source v1 = Source v2"
    and "token3_parser k1 nf k2 k3 nm pf dc conv cat u m1 = Inr (Some e1)"
    and "token3_parser k1 nf k2 k3 nm pf dc conv cat u m2 = Inr (Some e2)"
  shows "uid e1 = uid e2"
  using assms(1-4) token3_parser_Some[OF assms(5)] token3_parser_Some[OF assms(6)] by auto

lemma token1_parser_Some:
  assumes "token1_parser nm dc u msg = Inr (Some ev)"
  shows "\<exists>v1 items vs d. get_value_1 msg = Inr v1 \<and> get_items (Source v1) = Inr items
           \<and> for_each token1_step items [] = Inr vs
           \<and> first_value (Data v1) = Inr d
           \<and> ev = new_Event (u @ ''_'' @ as_str v1 @ ''_'' @ vs) nm ''binary_sensor'' dc None
                    (BoolValue (d = ''true'')) None None"
  using assms unfolding token1_parser_def try_except_eq_Some
  by (auto simp: bind_exn_eq_Inr)

lemma token1_parser_uid:
  assumes "get_value_1 m1 = Inr v1" "get_value_1 m2 = Inr v2"
    and "as_str v1 = as_str v2" "Source v1 = Source v2"
    and "token1_parser nm dc u m1 = Inr (Some e1)"
    and "token1_parser nm dc u m2 = Inr (Some e2)"
  shows "uid e1 = uid e2"
  using assms(1-4) token1_parser_Some[OF assms(5)] token1_parser_Some[OF assms(6)] by auto

lemma processor_usage_uid:
  assumes "get_value_1 m1 = Inr v1" "get_value_1 m2 = Inr v2"
    and "as_str v1 = as_str v2"
    and "async_parse_processor_usage u m1 = Inr (Some e1)"
    and "async_parse_processor_usage u m2 = Inr (Some e2)"
  shows "uid e1 = uid e2"
  using assms(1-3) processor_usage_Some[OF assms(4)] processor_usage_Some[OF assms(5)] by auto

lemma datetime_parser_uid:
  assumes "get_value_1 m1 = Inr v1" "get_value_1 m2 = Inr v2"
    and "as_str v1 = as_str v2"
    and "datetime_parser nm en pd al u m1 = Inr (Some e1)"
    and "datetime_parser nm en pd al u m2 = Inr (Some e2)"
  shows "uid e1 = uid e2"
  using assms(1-3) datetime_parser_Some[OF assms(4)] datetime_parser_Some[OF assms(5)] by auto

text \<open>Every registered parser has one of the five shapes.\<close>

lemma ran_PARSERS: "ran (PARSERS pd al) = set (map snd (registrations pd al))"
proof -
  have "distinct (map fst (rev (registrations pd al)))"
    using distinct_topics[of pd al] by (simp add: rev_map[symmetric])
  then have "ran (map_of (rev (registrations pd al))) = snd ` set (rev (registrations pd al))"
    by (rule ran_distinct)
  then show ?thesis by (simp add: PARSERS_map_of)
qed

lemma registered_parser_cases:
  assumes "p \<in> ran (PARSERS pd al)"
  shows "(\<exists>nm dc tr cat. p = source0_parser nm dc tr cat)
       \<or> (\<exists>k1 nf k2 k3 nm pf dc conv cat. p = token3_parser k1 nf k2 k3 nm pf dc conv cat)
       \<or> (\<exists>nm dc. p = token1_parser nm dc)
       \<or> p = async_parse_processor_usage
       \<or> (\<exists>nm en. p = datetime_parser nm en pd al)"
proof -
  from assms have "p \<in> set (map snd (registrations pd al))"
    by (simp only: ran_PARSERS)
  then show ?thesis
    unfolding registrations_def
      async_parse_motion_alarm_def async_parse_image_too_blurry_def
      async_parse_image_too_dark_def async_parse_image_too_bright_def
      async_parse_scene_change_def async_parse_detected_sound_def
      async_parse_field_detector_def async_parse_cell_motion_detector_def
      async_parse_motion_region_detector_def async_parse_tamper_detector_def
      async_parse_dog_cat_detector_def async_parse_vehicle_detector_def
      async_parse_person_detector_def async_parse_face_detector_def
      async_parse_visitor_detector_def async_parse_digital_input_def async_parse_relay_def
      async_parse_storage_failure_def async_parse_last_reboot_def async_parse_last_reset_def
      async_parse_backup_last_def async_parse_last_clock_sync_def async_parse_jobstate_def
      async_parse_linedetector_crossed_def async_parse_count_aggregation_counter_def
    by (simp only: list.map snd_conv list.set insert_iff empty_iff) blast
qed

lemma rule_parsers_registered: "set rule_parsers \<subseteq> ran (PARSERS pd al)"
  unfolding ran_PARSERS by (simp add: rule_parsers_def registrations_def)

text \<open>
  C3: for every registered parser, two invocations with the same device uid on messages
  with the same payload text and the same source items return Events with the same uid
  (whatever the data items are); and for the parsers that read the source item \<open>Rule\<close>,
  all of them registered, two messages that differ only in the value of that item (the
  last of that name) give Events with different uids.
\<close>

theorem uid_determinism:
  "(\<forall>p \<in> ran (PARSERS pd al). \<forall>v1 v2 e1 e2.
      get_value_1 m1 = Inr v1 \<and> get_value_1 m2 = Inr v2
      \<and> as_str v1 = as_str v2 \<and> Source v1 = Source v2
      \<and> p u m1 = Inr (Some e1) \<and> p u m2 = Inr (Some e2) \<longrightarrow> uid e1 = uid e2)
   \<and> set rule_parsers \<subseteq> ran (PARSERS pd al)
   \<and> (\<forall>p \<in> set rule_parsers. \<forall>e1.
      r1 \<noteq> r2 \<and> (\<forall>x \<in> set post. Name x \<noteq> Some ''Rule'')
      \<and> p u (rule_msg ptext pre r1 post dat) = Inr (Some e1) \<longrightarrow>
      (\<exists>e2. p u (rule_msg ptext pre r2 post dat) = Inr (Some e2) \<and> uid e2 \<noteq> uid e1))"
proof (intro conjI ballI allI impI)
  fix p v1 v2 e1 e2
  assume p: "p \<in> ran (PARSERS pd al)"
    and h: "get_value_1 m1 = Inr v1 \<and> get_value_1 m2 = Inr v2
      \<and> as_str v1 = as_str v2 \<and> Source v1 = Source v2
      \<and> p u m1 = Inr (Some e1) \<and> p u m2 = Inr (Some e2)"
  from registered_parser_cases[OF p] h show "uid e1 = uid e2"
    by (elim disjE exE)
      (auto intro: source0_parser_uid token3_parser_uid token1_parser_uid processor_usage_uid
         datetime_parser_uid)
next
  show "set rule_parsers \<subseteq> ran (PARSERS pd al)" by (rule rule_parsers_registered)
next
  fix p e1
  assume p: "p \<in> set rule_parsers"
    and h: "r1 \<noteq> r2 \<and> (\<forall>x \<in> set post. Name x \<noteq> Some ''Rule'')
      \<and> p u (rule_msg ptext pre r1 post dat) = Inr (Some e1)"
  from h have post: "\<forall>x \<in> set post. Name x \<noteq> Some ''Rule''" and r: "r1 \<noteq> r2"
    and e1: "p u (rule_msg ptext pre r1 post dat) = Inr (Some e1)"
    by simp_all
  from p consider
    (video) nf nm pf dc conv cat where
      "p = token3_parser ''VideoSourceConfigurationToken'' nf ''VideoAnalyticsConfigurationToken''
             ''Rule'' nm pf dc conv cat"
  | (audio) nf nm pf dc conv cat where
      "p = token3_parser ''AudioSourceConfigurationToken'' nf ''AudioAnalyticsConfigurationToken''
             ''Rule'' nm pf dc conv cat"
    unfolding rule_parsers_def async_parse_detected_sound_def async_parse_field_detector_def
      async_parse_cell_motion_detector_def async_parse_motion_region_detector_def
      async_parse_tamper_detector_def async_parse_linedetector_crossed_def
      async_parse_count_aggregation_counter_def
    by (simp only: list.set insert_iff empty_iff) blast
  then show "\<exists>e2. p u (rule_msg ptext pre r2 post dat) = Inr (Some e2) \<and> uid e2 \<noteq> uid e1"
  proof cases
    case video
    have k: "''VideoSourceConfigurationToken'' \<noteq> ''Rule''"
      "''VideoAnalyticsConfigurationToken'' \<noteq> ''Rule''"
      by simp_all
    from token3_parser_rule_differs[OF post k r e1[unfolded video]]
    show ?thesis unfolding video .
  next
    case audio
    have k: "''AudioSourceConfigurationToken'' \<noteq> ''Rule''"
      "''AudioAnalyticsConfigurationToken'' \<noteq> ''Rule''"
      by simp_all
    from token3_parser_rule_differs[OF post k r e1[unfolded audio]]
    show ?thesis unfolding audio .
  qed
qed

lemma token3_parser_rule_msg:
  "token3_parser ''VideoSourceConfigurationToken'' nf ''VideoAnalyticsConfigurationToken'' ''Rule''
       nm pf dc conv cat u
       (rule_msg text [mk_item ''VideoSourceConfigurationToken'' tok] r [] [mk_item n d]) =
     Inr (Some (new_Event (u @ ''_'' @ text @ ''_'' @ nf tok @ ''__'' @ r) nm pf dc None (conv d)
                  cat None))"
  by (simp add: token3_parser_def rule_msg_def token3_step_named)

theorem uid_determinism_witness:
  "uid_of_result (async_parse_cell_motion_detector ''cam''
      (rule_msg ''payload'' [mk_item ''VideoSourceConfigurationToken'' ''vs0''] ''RuleA'' []
         [mk_item ''IsMotion'' ''true'']))
   = uid_of_result (async_parse_cell_motion_detector ''cam''
      (rule_msg ''payload'' [mk_item ''VideoSourceConfigurationToken'' ''vs0''] ''RuleA'' []
         [mk_item ''IsMotion'' ''false'']))
   \<and> uid_of_result (async_parse_cell_motion_detector ''cam''
      (rule_msg ''payload'' [mk_item ''VideoSourceConfigurationToken'' ''vs0''] ''RuleA'' []
         [mk_item ''IsMotion'' ''true'']))
   \<noteq> uid_of_result (async_parse_cell_motion_detector ''cam''
      (rule_msg ''payload'' [mk_item ''VideoSourceConfigurationToken'' ''vs0''] ''RuleB'' []
         [mk_item ''IsMotion'' ''true'']))"
proof -
  let ?pre = "[mk_item ''VideoSourceConfigurationToken'' ''vs0'']"
  let ?m = "\<lambda>r d. rule_msg ''payload'' ?pre r [] [mk_item ''IsMotion'' d]"
  let ?p = async_parse_cell_motion_detector
  note inst = uid_determinism[where pd = example_parse_datetime and al = example_as_local
      and ?m1.0 = "?m ''RuleA'' ''true''" and ?m2.0 = "?m ''RuleA'' ''false''" and u = "''cam''"
      and ?r1.0 = "''RuleA''" and ?r2.0 = "''RuleB''" and post = "[]" and ptext = "''payload''"
      and pre = ?pre and dat = "[mk_item ''IsMotion'' ''true'']"]
  have rp: "?p \<in> set rule_parsers" by (simp add: rule_parsers_def)
  with inst have reg: "?p \<in> ran (PARSERS example_parse_datetime example_as_local)" by blast
  obtain e1 where e1: "?p ''cam'' (?m ''RuleA'' ''true'') = Inr (Some e1)"
    by (simp add: async_parse_cell_motion_detector_def token3_parser_rule_msg)
  obtain e2 where e2: "?p ''cam'' (?m ''RuleA'' ''false'') = Inr (Some e2)"
    by (simp add: async_parse_cell_motion_detector_def token3_parser_rule_msg)
  obtain v1 where v1: "get_value_1 (?m ''RuleA'' ''true'') = Inr v1"
    "as_str v1 = ''payload''" "Source v1 = Some \<lparr>SimpleItem = Some (?pre @ [mk_item ''Rule'' ''RuleA''])\<rparr>"
    by (simp add: rule_msg_def)
  obtain v2 where v2: "get_value_1 (?m ''RuleA'' ''false'') = Inr v2"
    "as_str v2 = ''payload''" "Source v2 = Some \<lparr>SimpleItem = Some (?pre @ [mk_item ''Rule'' ''RuleA''])\<rparr>"
    by (simp add: rule_msg_def)
  from v1 v2 have eqs: "as_str v1 = as_str v2" "Source v1 = Source v2" by simp_all
  from inst reg e1 e2 v1(1) v2(1) eqs have same: "uid e1 = uid e2" by blast
  have ne: "''RuleA'' \<noteq> ''RuleB''" by simp
  from inst rp e1 ne obtain e3 where e3: "?p ''cam'' (?m ''RuleB'' ''true'') = Inr (Some e3)"
    and diff: "uid e3 \<noteq> uid e1"
    by fastforce
  from same diff e1 e2 e3 show ?thesis by (auto simp: uid_of_result_def)
qed

subsection \<open>The video source token in the uid\<close>

lemma normalize_video_source_vsconf [simp]:
  "normalize_video_source ''vsconf'' = ''VideoSourceToken''"
  by (simp add: normalize_video_source_def VIDEO_SOURCE_MAPPING_def)

lemma normalize_video_source_other:
  "tok \<noteq> ''vsconf'' \<Longrightarrow> normalize_video_source tok = tok"
  by (simp add: normalize_video_source_def VIDEO_SOURCE_MAPPING_def)

text \<open>
  The parsers that pass the video source token through \<open>_normalize_video_source\<close> put the
  normalized token into the uid; the line detector parser puts in the token as it is.
\<close>

lemma normalizing_parsers_uid:
  assumes "p \<in> set [async_parse_field_detector, async_parse_cell_motion_detector,
      async_parse_motion_region_detector, async_parse_tamper_detector,
      async_parse_count_aggregation_counter]"
  shows "uid_of_result (p u (rule_msg text [mk_item ''VideoSourceConfigurationToken'' tok] r []
            [mk_item n d])) =
         Inr (Some (u @ ''_'' @ text @ ''_'' @ normalize_video_source tok @ ''__'' @ r))"
  using assms
  by (auto simp: uid_of_result_def token3_parser_rule_msg async_parse_field_detector_def
      async_parse_cell_motion_detector_def async_parse_motion_region_detector_def
      async_parse_tamper_detector_def async_parse_count_aggregation_counter_def)

lemma linedetector_uid:
  "uid_of_result (async_parse_linedetector_crossed u
      (rule_msg text [mk_item ''VideoSourceConfigurationToken'' tok] r [] [mk_item n d])) =
   Inr (Some (u @ ''_'' @ text @ ''_'' @ tok @ ''__'' @ r))"
  by (simp add: uid_of_result_def token3_parser_rule_msg async_parse_linedetector_crossed_def)

text \<open>
  C2: every parser that reads a video source token puts \<open>VideoSourceToken\<close> into the uid
  when the token is \<open>vsconf\<close>. The line detector parser does not: on a message with the
  token \<open>vsconf\<close> its uid has \<open>vsconf\<close>, where the count aggregation parser, which reads
  the same source items, has \<open>VideoSourceToken\<close>.
\<close>

theorem linedetector_keeps_vsconf:
  "uid_of_result (async_parse_linedetector_crossed ''cam'' vsconf_msg)
     = Inr (Some ''cam_payload_vsconf_analytics0_line1'')
   \<and> uid_of_result (async_parse_count_aggregation_counter ''cam'' vsconf_msg)
     = Inr (Some ''cam_payload_VideoSourceToken_analytics0_line1'')"
  by (simp add: uid_of_result_def vsconf_msg_def async_parse_linedetector_crossed_def
      async_parse_count_aggregation_counter_def token3_parser_def token3_step_named)

subsection \<open>Malformed messages\<close>

lemma try_except_not_caught:
  "try_except b \<noteq> Inl AttributeError"
  "try_except b \<noteq> Inl KeyError"
  by (auto simp: try_except_def split: sum.splits exn.splits)

lemma try_except_eq_None:
  "try_except b = Inr None \<longleftrightarrow> b = Inl AttributeError \<or> b = Inl KeyError"
  by (auto simp: try_except_def split: sum.splits exn.splits)

text \<open>What reading the message gives, by the shape of the message.\<close>

lemma get_value_1_cases:
  "get_value_1 msg =
     (case Message msg of
        None \<Rightarrow> Inl AttributeError
      | Some m \<Rightarrow> (case value_1 m of None \<Rightarrow> Inl AttributeError | Some v1 \<Rightarrow> Inr v1))"
  by (simp add: get_value_1_def split: option.splits)

lemma first_value_eq:
  "first_value holder =
     (case holder of
        None \<Rightarrow> Inl AttributeError
      | Some h \<Rightarrow>
          (case SimpleItem h of
             None \<Rightarrow> Inl AttributeError
           | Some [] \<Rightarrow> Inl IndexError
           | Some (x # _) \<Rightarrow> (case Value x of None \<Rightarrow> Inl AttributeError | Some v \<Rightarrow> Inr v)))"
  by (simp add: first_value_def get_items_def split: option.splits list.splits)

lemma first_value_AttributeError:
  "first_value holder = Inl AttributeError \<longleftrightarrow> first_missing holder"
  by (simp add: first_value_eq first_missing_def split: option.splits list.splits)

lemma first_value_IndexError:
  "first_value holder = Inl IndexError \<longleftrightarrow> first_empty holder"
  by (simp add: first_value_eq first_empty_def split: option.splits list.splits)

lemma first_value_result:
  "first_value holder = Inl AttributeError \<or> first_value holder = Inl IndexError
     \<or> (\<exists>v. first_value holder = Inr v)"
  by (simp add: first_value_eq split: option.splits list.splits)

lemma get_items_eq:
  "get_items holder =
     (case holder of
        None \<Rightarrow> Inl AttributeError
      | Some h \<Rightarrow> (case SimpleItem h of None \<Rightarrow> Inl AttributeError | Some xs \<Rightarrow> Inr xs))"
  by (simp add: get_items_def split: option.splits)

text \<open>
  The loops stop with AttributeError at the first item they cannot read, and run to the
  end when there is none.
\<close>

lemma token3_step_result:
  "(item_missing [k1, k2, k3] x \<longrightarrow> token3_step k1 nf k2 k3 s x = Inl AttributeError)
   \<and> (\<not> item_missing [k1, k2, k3] x \<longrightarrow> (\<exists>s'. token3_step k1 nf k2 k3 s x = Inr s'))"
  by (cases s; cases "Name x"; cases "Value x")
    (auto simp: token3_step_def item_missing_def)

lemma token1_step_result:
  "(item_missing [''Source''] x \<longrightarrow> token1_step s x = Inl AttributeError)
   \<and> (\<not> item_missing [''Source''] x \<longrightarrow> (\<exists>s'. token1_step s x = Inr s'))"
  by (cases "Name x"; cases "Value x") (auto simp: token1_step_def item_missing_def)

lemma for_each_result:
  assumes "\<And>s x. (bad x \<longrightarrow> step s x = Inl AttributeError)
     \<and> (\<not> bad x \<longrightarrow> (\<exists>s'. step s x = Inr s'))"
  shows "(list_ex bad xs \<longrightarrow> for_each step xs s = Inl AttributeError)
     \<and> (\<not> list_ex bad xs \<longrightarrow> (\<exists>s'. for_each step xs s = Inr s'))"
proof (induction xs arbitrary: s)
  case Nil
  show ?case by simp
next
  case (Cons x xs)
  show ?case
  proof (cases "bad x")
    case True
    with assms[of x s] show ?thesis by simp
  next
    case False
    with assms[of x s] obtain s1 where "step s x = Inr s1" by blast
    with False Cons.IH[of s1] show ?thesis by simp
  qed
qed

text \<open>
  For each shape of parser: it returns \<open>None\<close> exactly when the message lacks an attribute
  on the parser's way (the datetime parsers also when \<open>parse_datetime\<close> or \<open>as_local\<close>
  raise what the parser catches).
\<close>

lemma source0_parser_None:
  "source0_parser nm dc tr cat u msg = Inr None \<longleftrightarrow> missing_attribute FirstSource msg"
proof (cases "get_value_1 msg")
  case (Inl e)
  then show ?thesis
    by (auto simp: source0_parser_def missing_attribute_def get_value_1_cases
        split: option.splits)
next
  case (Inr v1)
  then have m: "missing_attribute FirstSource msg \<longleftrightarrow>
      first_value (Source v1) = Inl AttributeError
      \<or> (first_value (Source v1) \<noteq> Inl IndexError \<and> first_value (Data v1) = Inl AttributeError)"
    by (auto simp: missing_attribute_def get_value_1_cases first_value_AttributeError
        first_value_IndexError split: option.splits)
  show ?thesis
    unfolding m using first_value_result[of "Source v1"] first_value_result[of "Data v1"]
    by (auto simp: source0_parser_def Inr try_except_eq_None)
qed

lemma items_missing_iff:
  "items_missing names holder \<longleftrightarrow>
     get_items holder = Inl AttributeError
     \<or> (\<exists>xs. get_items holder = Inr xs \<and> list_ex (item_missing names) xs)"
  by (simp add: items_missing_def get_items_eq split: option.splits)

lemma get_items_result:
  "get_items holder = Inl AttributeError \<or> (\<exists>xs. get_items holder = Inr xs)"
  by (simp add: get_items_eq split: option.splits)

lemma token3_parser_None:
  "token3_parser k1 nf k2 k3 nm pf dc conv cat u msg = Inr None
     \<longleftrightarrow> missing_attribute (NamedSource [k1, k2, k3]) msg"
proof (cases "get_value_1 msg")
  case (Inl e)
  then show ?thesis
    by (auto simp: token3_parser_def missing_attribute_def get_value_1_cases
        split: option.splits)
next
  case (Inr v1)
  then have m: "missing_attribute (NamedSource [k1, k2, k3]) msg \<longleftrightarrow>
      items_missing [k1, k2, k3] (Source v1) \<or> first_value (Data v1) = Inl AttributeError"
    by (auto simp: missing_attribute_def get_value_1_cases first_value_AttributeError
        split: option.splits)
  show ?thesis
  proof (cases "get_items (Source v1)")
    case (Inl e)
    with get_items_result[of "Source v1"] have "get_items (Source v1) = Inl AttributeError"
      by simp
    then show ?thesis
      unfolding m by (simp add: items_missing_iff token3_parser_def Inr)
  next
    case items: (Inr items)
    note loop = for_each_result[of "item_missing [k1, k2, k3]" "token3_step k1 nf k2 k3",
        OF token3_step_result, of items "([], [], [])"]
    show ?thesis
    proof (cases "list_ex (item_missing [k1, k2, k3]) items")
      case True
      with loop have "for_each (token3_step k1 nf k2 k3) items ([], [], []) = Inl AttributeError"
        by blast
      with True show ?thesis
        unfolding m by (simp add: items_missing_iff token3_parser_def Inr items)
    next
      case False
      with loop obtain vs va r where
        "for_each (token3_step k1 nf k2 k3) items ([], [], []) = Inr (vs, va, r)"
        by (metis prod_cases3)
      with False show ?thesis
        unfolding m using first_value_result[of "Data v1"]
        by (auto simp: items_missing_iff token3_parser_def Inr items try_except_eq_None)
    qed
  qed
qed

lemma token1_parser_None:
  "token1_parser nm dc u msg = Inr None \<longleftrightarrow> missing_attribute (NamedSource [''Source'']) msg"
proof (cases "get_value_1 msg")
  case (Inl e)
  then show ?thesis
    by (auto simp: token1_parser_def missing_attribute_def get_value_1_cases
        split: option.splits)
next
  case (Inr v1)
  then have m: "missing_attribute (NamedSource [''Source'']) msg \<longleftrightarrow>
      items_missing [''Source''] (Source v1) \<or> first_value (Data v1) = Inl AttributeError"
    by (auto simp: missing_attribute_def get_value_1_cases first_value_AttributeError
        split: option.splits)
  show ?thesis
  proof (cases "get_items (Source v1)")
    case (Inl e)
    with get_items_result[of "Source v1"] have "get_items (Source v1) = Inl AttributeError"
      by simp
    then show ?thesis
      unfolding m by (simp add: items_missing_iff token1_parser_def Inr)
  next
    case items: (Inr items)
    note loop = for_each_result[of "item_missing [''Source'']" token1_step,
        OF token1_step_result, of items "[]"]
    show ?thesis
    proof (cases "list_ex (item_missing [''Source'']) items")
      case True
      with loop have "for_each token1_step items [] = Inl AttributeError"
        by blast
      with True show ?thesis
        unfolding m by (simp add: items_missing_iff token1_parser_def Inr items)
    next
      case False
      with loop obtain vs where "for_each token1_step items [] = Inr vs"
        by blast
      with False show ?thesis
        unfolding m using first_value_result[of "Data v1"]
        by (auto simp: items_missing_iff token1_parser_def Inr items try_except_eq_None)
    qed
  qed
qed

lemma parse_number_raises: "parse_number neg t = Inl e \<Longrightarrow> e = ValueError"
  by (auto simp: parse_number_def Let_def split: if_splits option.splits)

lemma float_of_str_raises: "float_of_str d = Inl e \<Longrightarrow> e = ValueError"
  by (auto simp: float_of_str_def Let_def split: option.splits if_splits
      dest: parse_number_raises)

lemma int_of_float_raises: "int_of_float x = Inl e \<Longrightarrow> e = OverflowError \<or> e = ValueError"
  by (cases x) (auto simp: int_of_float_def)

lemma processor_usage_None:
  "async_parse_processor_usage u msg = Inr None \<longleftrightarrow> missing_attribute DataOnly msg"
proof (cases "get_value_1 msg")
  case (Inl e)
  then show ?thesis
    by (auto simp: async_parse_processor_usage_def missing_attribute_def get_value_1_cases
        split: option.splits)
next
  case (Inr v1)
  then have m: "missing_attribute DataOnly msg \<longleftrightarrow> first_value (Data v1) = Inl AttributeError"
    by (auto simp: missing_attribute_def get_value_1_cases first_value_AttributeError
        split: option.splits)
  show ?thesis
  proof (cases "first_value (Data v1)")
    case (Inl e)
    with first_value_result[of "Data v1"] show ?thesis
      unfolding m by (auto simp: async_parse_processor_usage_def Inr)
  next
    case d: (Inr d)
    show ?thesis
    proof (cases "float_of_str d")
      case (Inl e)
      with float_of_str_raises[OF Inl] show ?thesis
        unfolding m by (simp add: async_parse_processor_usage_def Inr d)
    next
      case f: (Inr f)
      let ?g = "if float_le_int f 1 then float_times_100 f else f"
      show ?thesis
      proof (cases "int_of_float ?g")
        case (Inl e)
        with int_of_float_raises[OF Inl] show ?thesis
          unfolding m by (auto simp: async_parse_processor_usage_def Inr d f Let_def)
      next
        case n: (Inr n)
        then show ?thesis
          unfolding m by (simp add: async_parse_processor_usage_def Inr d f Let_def)
      qed
    qed
  qed
qed

lemma datetime_parser_None:
  "datetime_parser nm en pd al u msg = Inr None \<longleftrightarrow>
     missing_attribute DataOnly msg
     \<or> (\<exists>d. data_value msg = Inr d
          \<and> (local_datetime_or_none pd al d = Inl AttributeError
               \<or> local_datetime_or_none pd al d = Inl KeyError))"
proof (cases "get_value_1 msg")
  case (Inl e)
  then show ?thesis
    by (auto simp: datetime_parser_def missing_attribute_def get_value_1_cases
        split: option.splits)
next
  case (Inr v1)
  then have m: "missing_attribute DataOnly msg \<longleftrightarrow> first_value (Data v1) = Inl AttributeError"
    by (auto simp: missing_attribute_def get_value_1_cases first_value_AttributeError
        split: option.splits)
  have dv: "data_value msg = first_value (Data v1)"
    by (simp add: data_value_def Inr)
  show ?thesis
  proof (cases "first_value (Data v1)")
    case (Inl e)
    with first_value_result[of "Data v1"] show ?thesis
      unfolding m dv by (auto simp: datetime_parser_def Inr)
  next
    case d: (Inr d)
    show ?thesis
      unfolding m dv d
      by (cases "local_datetime_or_none pd al d")
        (auto simp: datetime_parser_def Inr d try_except_eq_None)
  qed
qed

text \<open>Every parser function has one of the five shapes, with what it reads.\<close>

lemma parser_reads_cases:
  assumes "(p, r) \<in> set (parser_reads pd al)"
  shows "(r = FirstSource \<and> (\<exists>nm dc tr cat. p = source0_parser nm dc tr cat))
       \<or> (\<exists>k1 nf k2 k3 nm pf dc conv cat.
            r = NamedSource [k1, k2, k3] \<and> p = token3_parser k1 nf k2 k3 nm pf dc conv cat)
       \<or> (r = NamedSource [''Source''] \<and> (\<exists>nm dc. p = token1_parser nm dc))
       \<or> (r = DataOnly \<and> p = async_parse_processor_usage)
       \<or> (r = DataOnly \<and> p \<in> set (datetime_parsers pd al))"
  using assms
  unfolding parser_reads_def datetime_parsers_def
    async_parse_motion_alarm_def async_parse_image_too_blurry_def
    async_parse_image_too_dark_def async_parse_image_too_bright_def
    async_parse_scene_change_def async_parse_detected_sound_def
    async_parse_field_detector_def async_parse_cell_motion_detector_def
    async_parse_motion_region_detector_def async_parse_tamper_detector_def
    async_parse_dog_cat_detector_def async_parse_vehicle_detector_def
    async_parse_person_detector_def async_parse_face_detector_def
    async_parse_visitor_detector_def async_parse_digital_input_def async_parse_relay_def
    async_parse_storage_failure_def async_parse_jobstate_def
    async_parse_linedetector_crossed_def async_parse_count_aggregation_counter_def
  by (simp only: list.set insert_iff empty_iff prod.inject) blast

lemma datetime_parsers_shape:
  assumes "p \<in> set (datetime_parsers pd al)"
  shows "\<exists>nm en. p = datetime_parser nm en pd al"
  using assms
  unfolding datetime_parsers_def async_parse_last_reboot_def async_parse_last_reset_def
    async_parse_backup_last_def async_parse_last_clock_sync_def
  by (simp only: list.set insert_iff empty_iff) blast

lemma parser_reads_registered: "fst ` set (parser_reads pd al) = ran (PARSERS pd al)"
  unfolding ran_PARSERS by (auto simp: parser_reads_def registrations_def)

text \<open>
  C1, as the code has it: for every registered parser, a message that lacks an attribute
  on the parser's way makes the parser return \<open>None\<close> and not raise. The attribute may be
  \<open>Message\<close>, \<open>_value_1\<close>, \<open>Source\<close>, \<open>Data\<close>, a \<open>SimpleItem\<close>, the \<open>Name\<close> of a source
  item or the \<open>Value\<close> of an item whose value the parser takes; it is on the parser's way
  when the parser comes to read it, no empty list having stopped it before. The parser
  functions listed with what they read are the registered parsers; none of them raises
  AttributeError or KeyError on any message; and a parser returns \<open>None\<close> for such
  messages only, the four datetime parsers also when \<open>parse_datetime\<close> or \<open>as_local\<close>
  raises AttributeError or KeyError on the data value.
\<close>

theorem missing_attribute_returns_None:
  "fst ` set (parser_reads pd al) = ran (PARSERS pd al)
   \<and> (\<forall>(p, r) \<in> set (parser_reads pd al).
        p u msg \<noteq> Inl AttributeError \<and> p u msg \<noteq> Inl KeyError
      \<and> (missing_attribute r msg \<longrightarrow> p u msg = Inr None)
      \<and> (p u msg = Inr None \<longrightarrow>
           missing_attribute r msg
           \<or> (p \<in> set (datetime_parsers pd al)
              \<and> (\<exists>d. data_value msg = Inr d
                   \<and> (local_datetime_or_none pd al d = Inl AttributeError
                        \<or> local_datetime_or_none pd al d = Inl KeyError)))))"
proof (intro conjI ballI)
  show "fst ` set (parser_reads pd al) = ran (PARSERS pd al)"
    by (rule parser_reads_registered)
next
  fix x assume x: "x \<in> set (parser_reads pd al)"
  obtain p r where pr: "x = (p, r)" by (cases x)
  from x pr have "(p, r) \<in> set (parser_reads pd al)" by simp
  from parser_reads_cases[OF this]
  consider (source0) nm dc tr cat where "r = FirstSource" "p = source0_parser nm dc tr cat"
    | (token3) k1 nf k2 k3 nm pf dc conv cat where
        "r = NamedSource [k1, k2, k3]" "p = token3_parser k1 nf k2 k3 nm pf dc conv cat"
    | (token1) nm dc where "r = NamedSource [''Source'']" "p = token1_parser nm dc"
    | (usage) "r = DataOnly" "p = async_parse_processor_usage"
    | (datetime) "r = DataOnly" "p \<in> set (datetime_parsers pd al)"
    by blast
  then have "p u msg \<noteq> Inl AttributeError \<and> p u msg \<noteq> Inl KeyError
      \<and> (missing_attribute r msg \<longrightarrow> p u msg = Inr None)
      \<and> (p u msg = Inr None \<longrightarrow>
           missing_attribute r msg
           \<or> (p \<in> set (datetime_parsers pd al)
              \<and> (\<exists>d. data_value msg = Inr d
                   \<and> (local_datetime_or_none pd al d = Inl AttributeError
                        \<or> local_datetime_or_none pd al d = Inl KeyError))))"
  proof cases
    case source0
    have "p u msg \<noteq> Inl AttributeError" "p u msg \<noteq> Inl KeyError"
      by (simp_all add: source0(2) source0_parser_def try_except_not_caught)
    then show ?thesis
      using source0_parser_None[of nm dc tr cat u msg] by (simp add: source0)
  next
    case token3
    have "p u msg \<noteq> Inl AttributeError" "p u msg \<noteq> Inl KeyError"
      by (simp_all add: token3(2) token3_parser_def try_except_not_caught)
    then show ?thesis
      using token3_parser_None[of k1 nf k2 k3 nm pf dc conv cat u msg] by (simp add: token3)
  next
    case token1
    have "p u msg \<noteq> Inl AttributeError" "p u msg \<noteq> Inl KeyError"
      by (simp_all add: token1(2) token1_parser_def try_except_not_caught)
    then show ?thesis
      using token1_parser_None[of nm dc u msg] by (simp add: token1)
  next
    case usage
    have "p u msg \<noteq> Inl AttributeError" "p u msg \<noteq> Inl KeyError"
      by (simp_all add: usage(2) async_parse_processor_usage_def try_except_not_caught)
    then show ?thesis
      using processor_usage_None[of u msg] by (simp add: usage)
  next
    case datetime
    from datetime_parsers_shape[OF datetime(2)] obtain nm en where
      p: "p = datetime_parser nm en pd al" by blast
    have "p u msg \<noteq> Inl AttributeError" "p u msg \<noteq> Inl KeyError"
      by (simp_all add: p datetime_parser_def try_except_not_caught)
    then show ?thesis
      using datetime_parser_None[of nm en pd al u msg] datetime(2)
      by (simp add: p[symmetric] datetime(1))
  qed
  then show "case x of (p, r) \<Rightarrow>
      p u msg \<noteq> Inl AttributeError \<and> p u msg \<noteq> Inl KeyError
      \<and> (missing_attribute r msg \<longrightarrow> p u msg = Inr None)
      \<and> (p u msg = Inr None \<longrightarrow>
           missing_attribute r msg
           \<or> (p \<in> set (datetime_parsers pd al)
              \<and> (\<exists>d. data_value msg = Inr d
                   \<and> (local_datetime_or_none pd al d = Inl AttributeError
                        \<or> local_datetime_or_none pd al d = Inl KeyError))))"
    by (simp add: pr)
qed

lemma missing_attribute_examples:
  "missing_attribute FirstSource no_message_msg"
  "missing_attribute FirstSource no_source_msg"
  "missing_attribute FirstSource no_data_msg"
  "missing_attribute FirstSource valueless_source_msg"
  "missing_attribute (NamedSource names) nameless_source_msg"
  "missing_attribute (NamedSource names) empty_source_no_data_msg"
  "missing_attribute DataOnly empty_source_no_data_msg"
  "\<not> missing_attribute FirstSource (state_msg d)"
  by (simp_all add: missing_attribute_def first_missing_def first_empty_def
      items_missing_def item_missing_def no_message_msg_def no_source_msg_def no_data_msg_def
      valueless_source_msg_def nameless_source_msg_def empty_source_no_data_msg_def
      state_msg_def mk_msg_def)

theorem missing_attribute_returns_None_witness:
  "async_parse_motion_alarm ''cam'' no_message_msg = Inr None
   \<and> async_parse_motion_alarm ''cam'' no_source_msg = Inr None
   \<and> async_parse_motion_alarm ''cam'' no_data_msg = Inr None
   \<and> async_parse_motion_alarm ''cam'' valueless_source_msg = Inr None
   \<and> async_parse_field_detector ''cam'' nameless_source_msg = Inr None
   \<and> async_parse_cell_motion_detector ''cam'' empty_source_no_data_msg = Inr None
   \<and> async_parse_dog_cat_detector ''cam'' empty_source_no_data_msg = Inr None
   \<and> async_parse_processor_usage ''cam'' empty_source_no_data_msg = Inr None
   \<and> async_parse_last_reboot example_parse_datetime example_as_local ''cam''
       empty_source_no_data_msg = Inr None
   \<and> async_parse_motion_alarm ''cam'' (state_msg ''true'') \<noteq> Inr None"
proof -
  let ?pd = example_parse_datetime and ?al = example_as_local
  let ?video = "NamedSource [''VideoSourceConfigurationToken'',
    ''VideoAnalyticsConfigurationToken'', ''Rule'']"
  have reads:
    "(async_parse_motion_alarm, FirstSource) \<in> set (parser_reads ?pd ?al)"
    "(async_parse_field_detector, ?video) \<in> set (parser_reads ?pd ?al)"
    "(async_parse_cell_motion_detector, ?video) \<in> set (parser_reads ?pd ?al)"
    "(async_parse_dog_cat_detector, NamedSource [''Source'']) \<in> set (parser_reads ?pd ?al)"
    "(async_parse_processor_usage, DataOnly) \<in> set (parser_reads ?pd ?al)"
    "(async_parse_last_reboot ?pd ?al, DataOnly) \<in> set (parser_reads ?pd ?al)"
    by (simp_all add: parser_reads_def)
  have rule: "p ''cam'' msg = Inr None"
    if "(p, r) \<in> set (parser_reads ?pd ?al)" and "missing_attribute r msg" for p r msg
    using missing_attribute_returns_None[of ?pd ?al "''cam''" msg] that by blast
  have "async_parse_motion_alarm \<notin> set (datetime_parsers ?pd ?al)
      \<or> async_parse_motion_alarm ''cam'' (state_msg ''true'') \<noteq> Inr None"
    by (simp add: async_parse_motion_alarm_def)
  then have "async_parse_motion_alarm ''cam'' (state_msg ''true'') \<noteq> Inr None"
    using missing_attribute_returns_None[of ?pd ?al "''cam''" "state_msg ''true''"]
      reads(1) missing_attribute_examples(8)[of "''true''"]
    by blast
  then show ?thesis
    using rule[OF reads(1) missing_attribute_examples(1)]
      rule[OF reads(1) missing_attribute_examples(2)]
      rule[OF reads(1) missing_attribute_examples(3)]
      rule[OF reads(1) missing_attribute_examples(4)]
      rule[OF reads(2) missing_attribute_examples(5)]
      rule[OF reads(3) missing_attribute_examples(6)]
      rule[OF reads(4) missing_attribute_examples(6)]
      rule[OF reads(5) missing_attribute_examples(7)]
      rule[OF reads(6) missing_attribute_examples(7)]
    by simp
qed

text \<open>
  C1, as the spec states it, takes in the message with an empty list: there the motion
  alarm parser reads \<open>Data.SimpleItem[0]\<close> and raises IndexError, which the
  \<open>except (AttributeError, KeyError)\<close> clause lets through.
\<close>

theorem empty_data_list_raises_IndexError:
  "async_parse_motion_alarm ''cam'' no_data_items_msg = Inl IndexError"
  by (simp add: async_parse_motion_alarm_def source0_parser_def no_data_items_msg_def)

text \<open>
  A processor usage value that is not a number makes \<open>float\<close> raise ValueError, which
  the parser lets through as well.
\<close>

lemma float_of_str_abc: "float_of_str ''abc'' = Inl ValueError"
  by code_simp

lemma non_numeric_usage_raises_ValueError:
  "async_parse_processor_usage ''cam'' (state_msg ''abc'') = Inl ValueError"
  by (simp add: async_parse_processor_usage_def state_msg_def float_of_str_abc)

end
